theory Spec2Isabelle
  imports Complex_Main
begin

section \<open>Arrays, errors and what lies below the source\<close>

text \<open>
  The program is \<^verbatim>\<open>panorama/src/keypointDetect.py\<close>: a Gaussian pyramid, its
  difference-of-Gaussians (DoG) pyramid, a principal-curvature map and the detector of
  scale-space extrema. A NumPy array is modelled by its shape, its element type and its
  indexing function; only the entries inside the shape mean anything. The element types
  are those the pipeline meets: \<open>uint8\<close>, the type of an image as \<^verbatim>\<open>cv2.imread\<close> returns
  it, and the two float types. An entry is the real number the element stands for; an
  infinite or undefined float is not an entry of such an array.
\<close>

datatype dtype = UInt8 | Float32 | Float64

record ndarray2 =
  rows2 :: nat
  cols2 :: nat
  dtype2 :: dtype
  at2 :: "nat \<Rightarrow> nat \<Rightarrow> real"

text \<open>A pyramid has shape \<open>(imH, imW, #levels)\<close> and is indexed \<open>[y, x, l]\<close>.\<close>

record ndarray3 =
  rows3 :: nat
  cols3 :: nat
  chans3 :: nat
  dtype3 :: dtype
  at3 :: "nat \<Rightarrow> nat \<Rightarrow> nat \<Rightarrow> real"

text \<open>
  The quotient of two arrays can hold the results of a division by zero; the curvature
  map, an array of type \<open>float64\<close>, is the one array of the program filled by a division.
\<close>

datatype float64 = Finite real | PosInf | NegInf | NaN

record farray3 =
  frows3 :: nat
  fcols3 :: nat
  fchans3 :: nat
  fat3 :: "nat \<Rightarrow> nat \<Rightarrow> nat \<Rightarrow> float64"

text \<open>
  The exceptions a call can end with. \<open>ValueError\<close>, \<open>IndexError\<close> and
  \<open>ZeroDivisionError\<close> are Python's and NumPy's, \<open>CvError\<close> is \<^verbatim>\<open>cv2.error\<close>.
  \<open>InvalidParameter\<close> is the error of the specification; no statement of the source
  raises it.
\<close>

datatype error = InvalidParameter | ValueError | IndexError | ZeroDivisionError | CvError

text \<open>The image handed to the pipeline: \<open>len(im.shape)\<close> is 2 or 3.\<close>

datatype im_input = Gray ndarray2 | Color ndarray3

text \<open>
  What the source calls and does not define is a parameter of the model. The three
  functions of OpenCV: \<open>None\<close> is a raised \<^verbatim>\<open>cv2.error\<close>, and \<open>Sobel img dx dy\<close> is
  \<^verbatim>\<open>cv2.Sobel(img, -1, dx, dy)\<close>. The arithmetic of floats: \<open>round32\<close> and \<open>round64\<close>
  round a real to the float of that width, so that the sum, difference, product and
  quotient of two floats are the rounded exact ones, and \<open>fpow k i\<close> is \<^verbatim>\<open>k**i\<close> on a
  float and an integer.
\<close>

record platform =
  cvtColor :: "ndarray3 \<Rightarrow> ndarray2 option"
  GaussianBlur :: "ndarray2 \<Rightarrow> int \<times> int \<Rightarrow> real \<Rightarrow> ndarray2 option"
  Sobel :: "ndarray2 \<Rightarrow> nat \<Rightarrow> nat \<Rightarrow> ndarray2 option"
  round32 :: "real \<Rightarrow> real"
  round64 :: "real \<Rightarrow> real"
  fpow :: "real \<Rightarrow> int \<Rightarrow> real"

subsection \<open>NumPy operations used by the source\<close>

text \<open>The element type of the result of an operation on two arrays: the wider one.\<close>

fun promote :: "dtype \<Rightarrow> dtype \<Rightarrow> dtype" where
  "promote Float64 d = Float64"
| "promote d Float64 = Float64"
| "promote Float32 d = Float32"
| "promote d Float32 = Float32"
| "promote UInt8 UInt8 = UInt8"

text \<open>A value stored with an element type. In \<open>uint8\<close> an integer is kept modulo 256
  and the fraction of a float is dropped; a float type rounds.\<close>

definition cast :: "platform \<Rightarrow> dtype \<Rightarrow> real \<Rightarrow> real" where
  "cast cv d v =
     (case d of
        UInt8 \<Rightarrow> of_int (\<lfloor>v\<rfloor> mod 256)
      | Float32 \<Rightarrow> round32 cv v
      | Float64 \<Rightarrow> round64 cv v)"

text \<open>\<^verbatim>\<open>a[:, :, l]\<close>, for \<open>l\<close> inside the last axis.\<close>

definition slice3 :: "ndarray3 \<Rightarrow> nat \<Rightarrow> ndarray2" where
  "slice3 a l =
     \<lparr>rows2 = rows3 a, cols2 = cols3 a, dtype2 = dtype3 a, at2 = (\<lambda>y x. at3 a y x l)\<rparr>"

text \<open>\<^verbatim>\<open>a[1:imH-1, 1:imW-1, l]\<close> with \<open>imH\<close> and \<open>imW\<close> read from \<open>a.shape\<close>: an
  axis of length \<open>n\<close> keeps \<open>n - 2\<close> entries, none when \<open>n \<le> 2\<close>.\<close>

definition interior :: "ndarray3 \<Rightarrow> nat \<Rightarrow> ndarray2" where
  "interior a l =
     \<lparr>rows2 = rows3 a - 2, cols2 = cols3 a - 2, dtype2 = dtype3 a,
      at2 = (\<lambda>y x. at3 a (y + 1) (x + 1) l)\<rparr>"

text \<open>The elementwise maximum or minimum of two arrays of one shape and one element
  type: the result is one of the two entries.\<close>

definition zip2 :: "(real \<Rightarrow> real \<Rightarrow> real) \<Rightarrow> ndarray2 \<Rightarrow> ndarray2 \<Rightarrow> ndarray2" where
  "zip2 f a b =
     \<lparr>rows2 = rows2 a, cols2 = cols2 a, dtype2 = dtype2 a,
      at2 = (\<lambda>y x. f (at2 a y x) (at2 b y x))\<rparr>"

text \<open>Elementwise arithmetic \<^verbatim>\<open>a + b\<close>, \<^verbatim>\<open>a - b\<close>, \<^verbatim>\<open>a * b\<close> on two arrays of one
  shape: the exact result, stored with the element type of the result. In \<open>uint8\<close>
  the result wraps around: \<open>3 - 5\<close> is \<open>254\<close>.\<close>

definition arith :: "platform \<Rightarrow> (real \<Rightarrow> real \<Rightarrow> real) \<Rightarrow> ndarray2 \<Rightarrow> ndarray2 \<Rightarrow> ndarray2" where
  "arith cv f a b =
     \<lparr>rows2 = rows2 a, cols2 = cols2 a, dtype2 = promote (dtype2 a) (dtype2 b),
      at2 = (\<lambda>y x. cast cv (promote (dtype2 a) (dtype2 b)) (f (at2 a y x) (at2 b y x)))\<rparr>"

text \<open>\<^verbatim>\<open>a**2\<close>: the square, in the element type of \<open>a\<close>.\<close>

definition square :: "platform \<Rightarrow> ndarray2 \<Rightarrow> ndarray2" where
  "square cv a = a\<lparr>at2 := (\<lambda>y x. cast cv (dtype2 a) ((at2 a y x)\<^sup>2))\<rparr>"

text \<open>\<^verbatim>\<open>a / b\<close> at one entry. The quotient of two arrays of integers is an array of
  \<open>float64\<close>, that of floats has their type. A division by zero raises nothing: it
  gives \<open>nan\<close> for \<open>0 / 0\<close> and an infinity otherwise.\<close>

definition true_divide :: "platform \<Rightarrow> dtype \<Rightarrow> real \<Rightarrow> real \<Rightarrow> float64" where
  "true_divide cv d a b =
     (if b = 0 then (if a = 0 then NaN else if 0 < a then PosInf else NegInf)
      else Finite (cast cv (if d = UInt8 then Float64 else d) (a / b)))"

definition same_shape :: "ndarray2 \<Rightarrow> ndarray2 \<Rightarrow> bool" where
  "same_shape a b = (rows2 a = rows2 b \<and> cols2 a = cols2 b)"

text \<open>\<^verbatim>\<open>np.stack(arrays, axis=-1)\<close>: no array, or arrays of different shapes, is a
  \<open>ValueError\<close>. The result has the widest of the element types, and every entry keeps
  its value.\<close>

fun stack :: "ndarray2 list \<Rightarrow> error + ndarray3" where
  "stack [] = Inl ValueError"
| "stack (a # as) =
     (if list_all (same_shape a) as
      then Inr \<lparr>rows3 = rows2 a, cols3 = cols2 a, chans3 = length (a # as),
                 dtype3 = fold promote (map dtype2 as) (dtype2 a),
                 at3 = (\<lambda>y x l. at2 ((a # as) ! l) y x)\<rparr>
      else Inl ValueError)"

text \<open>\<^verbatim>\<open>im.max()\<close>: a \<open>ValueError\<close> on an array with no entry.\<close>

definition entries :: "ndarray2 \<Rightarrow> real list" where
  "entries a = concat (map (\<lambda>y. map (at2 a y) [0..<cols2 a]) [0..<rows2 a])"

definition amax :: "ndarray2 \<Rightarrow> error + real" where
  "amax a = (case entries a of [] \<Rightarrow> Inl ValueError | v # vs \<Rightarrow> Inr (fold max vs v))"

text \<open>Python's \<^verbatim>\<open>int\<close> of a float: the fraction is dropped.\<close>

definition py_int :: "real \<Rightarrow> int" where
  "py_int v = (if 0 \<le> v then \<lfloor>v\<rfloor> else \<lceil>v\<rceil>)"

section \<open>createGaussianPyramid\<close>

text \<open>Lines 24 and 26, in the arithmetic of doubles: \<^verbatim>\<open>sigma_ = sigma0*k**i\<close> is
  a power and a rounded product, and \<^verbatim>\<open>size = int(np.floor(3*sigma_*2) + 1)\<close> is the
  product by 3, rounded, the product by 2, rounded, its floor, and the rounded sum with
  1. A zero \<open>k\<close> cannot be raised to a negative level; that case is decided before the
  power is taken.\<close>

definition sigma_i :: "platform \<Rightarrow> real \<Rightarrow> real \<Rightarrow> int \<Rightarrow> real" where
  "sigma_i cv sigma0 k i = round64 cv (sigma0 * fpow cv k i)"

definition kernel_size :: "platform \<Rightarrow> real \<Rightarrow> int" where
  "kernel_size cv s =
     py_int (round64 cv (of_int \<lfloor>round64 cv (round64 cv (3 * s) * 2)\<rfloor> + 1))"

text \<open>The loop over \<open>levels\<close> (lines 23 to 27), in order; it stops at the first level
  that raises. For \<open>k = 0\<close> and a negative level Python raises \<open>ZeroDivisionError\<close> at
  \<^verbatim>\<open>k**i\<close>; when \<open>k\<close> is a NumPy scalar the power is infinite instead and \<^verbatim>\<open>int\<close> raises
  on the size. The call raises in both cases, and the model names the first.\<close>

fun blur_levels ::
  "platform \<Rightarrow> ndarray2 \<Rightarrow> real \<Rightarrow> real \<Rightarrow> int list \<Rightarrow> error + ndarray2 list" where
  "blur_levels cv im sigma0 k [] = Inr []"
| "blur_levels cv im sigma0 k (i # levels) =
     (if k = 0 \<and> i < 0 then Inl ZeroDivisionError
      else case GaussianBlur cv im
                  (kernel_size cv (sigma_i cv sigma0 k i), kernel_size cv (sigma_i cv sigma0 k i))
                  (sigma_i cv sigma0 k i) of
             None \<Rightarrow> Inl CvError
           | Some b \<Rightarrow>
               (case blur_levels cv im sigma0 k levels of
                  Inl e \<Rightarrow> Inl e
                | Inr bs \<Rightarrow> Inr (b # bs)))"

text \<open>Lines 18 to 21: a three-axis image is converted to gray; an image whose maximum
  exceeds 10 is converted to \<open>float32\<close> and divided by 255, and any other image is
  kept as it is, with its element type.\<close>

definition to_gray :: "platform \<Rightarrow> im_input \<Rightarrow> error + ndarray2" where
  "to_gray cv im =
     (case im of
        Gray g \<Rightarrow> Inr g
      | Color c \<Rightarrow> (case cvtColor cv c of None \<Rightarrow> Inl CvError | Some g \<Rightarrow> Inr g))"

definition normalize :: "platform \<Rightarrow> ndarray2 \<Rightarrow> error + ndarray2" where
  "normalize cv im =
     (case amax im of
        Inl e \<Rightarrow> Inl e
      | Inr m \<Rightarrow>
          Inr (if m > 10
               then \<lparr>rows2 = rows2 im, cols2 = cols2 im, dtype2 = Float32,
                     at2 = (\<lambda>y x. round32 cv (round32 cv (at2 im y x) / 255))\<rparr>
               else im))"

definition createGaussianPyramid ::
  "platform \<Rightarrow> im_input \<Rightarrow> real \<Rightarrow> real \<Rightarrow> int list \<Rightarrow> error + ndarray3" where
  "createGaussianPyramid cv im sigma0 k levels =
     (case to_gray cv im of
        Inl e \<Rightarrow> Inl e
      | Inr g \<Rightarrow>
          (case normalize cv g of
             Inl e \<Rightarrow> Inl e
           | Inr im' \<Rightarrow>
               (case blur_levels cv im' sigma0 k levels of
                  Inl e \<Rightarrow> Inl e
                | Inr im_pyramid \<Rightarrow> stack im_pyramid)))"

section \<open>createDoGPyramid\<close>

text \<open>The loop of lines 56 to 58 over \<open>range(len(levels)-1)\<close>: level \<open>i + 1\<close> minus
  level \<open>i\<close>, in the element type of the pyramid; an index past the last axis of the
  pyramid is an \<open>IndexError\<close>.\<close>

fun DoG_loop :: "platform \<Rightarrow> ndarray3 \<Rightarrow> nat list \<Rightarrow> error + ndarray2 list" where
  "DoG_loop cv gp [] = Inr []"
| "DoG_loop cv gp (i # is) =
     (if i + 1 < chans3 gp
      then (case DoG_loop cv gp is of
              Inl e \<Rightarrow> Inl e
            | Inr ds \<Rightarrow> Inr (arith cv (-) (slice3 gp (i + 1)) (slice3 gp i) # ds))
      else Inl IndexError)"

definition createDoGPyramid ::
  "platform \<Rightarrow> ndarray3 \<Rightarrow> int list \<Rightarrow> error + ndarray3 \<times> int list" where
  "createDoGPyramid cv gaussian_pyramid levels =
     (let DoG_levels = map int [0..<length levels - 1] in
      case DoG_loop cv gaussian_pyramid [0..<length levels - 1] of
        Inl e \<Rightarrow> Inl e
      | Inr ds \<Rightarrow>
          (case stack ds of
             Inl e \<Rightarrow> Inl e
           | Inr DoG_pyramid \<Rightarrow> Inr (DoG_pyramid, DoG_levels)))"

section \<open>computePrincipalCurvature\<close>

text \<open>Lines 78 to 84: the second derivatives \<open>(dxx, dxy, dyy)\<close> of one level, each a
  Sobel filter of a Sobel filter.\<close>

definition hessian :: "platform \<Rightarrow> ndarray2 \<Rightarrow> (ndarray2 \<times> ndarray2 \<times> ndarray2) option" where
  "hessian cv img =
     (case Sobel cv img 1 0 of None \<Rightarrow> None | Some dx \<Rightarrow>
      case Sobel cv img 0 1 of None \<Rightarrow> None | Some dy \<Rightarrow>
      case Sobel cv dx 1 0 of None \<Rightarrow> None | Some dxx \<Rightarrow>
      case Sobel cv dx 0 1 of None \<Rightarrow> None | Some dxy \<Rightarrow>
      case Sobel cv dy 0 1 of None \<Rightarrow> None | Some dyy \<Rightarrow> Some (dxx, dxy, dyy))"

text \<open>Lines 87 and 88: \<^verbatim>\<open>det = dxx*dyy - dxy**2\<close> is computed in the element type of
  the derivatives, and \<^verbatim>\<open>det[det==0.] = 10**(-10)\<close> stores the float \<open>10**(-10)\<close> with
  the element type of \<open>det\<close>: in an array of \<open>uint8\<close> the entry stored is 0.\<close>

definition det_of :: "platform \<Rightarrow> ndarray2 \<Rightarrow> ndarray2 \<Rightarrow> ndarray2 \<Rightarrow> ndarray2" where
  "det_of cv dxx dxy dyy =
     (let det = arith cv (-) (arith cv (*) dxx dyy) (square cv dxy)
      in det\<lparr>at2 := (\<lambda>y x. if at2 det y x = 0 then cast cv (dtype2 det) (fpow cv 10 (- 10))
                            else at2 det y x)\<rparr>)"

text \<open>Line 90 at one pixel: \<^verbatim>\<open>(dxx + dyy)**2 / det\<close>.\<close>

definition ratio :: "platform \<Rightarrow> ndarray2 \<Rightarrow> ndarray2 \<Rightarrow> ndarray2 \<Rightarrow> nat \<Rightarrow> nat \<Rightarrow> float64" where
  "ratio cv dxx dxy dyy y x =
     (let num = square cv (arith cv (+) dxx dyy);
          det = det_of cv dxx dxy dyy
      in true_divide cv (promote (dtype2 num) (dtype2 det)) (at2 num y x) (at2 det y x))"

text \<open>One round of the loop over the levels. The three derivatives are combined
  elementwise, and the result is stored into a level of shape \<open>(imH, imW)\<close>: arrays of
  other shapes are a \<open>ValueError\<close> (NumPy broadcasts only a few of them).\<close>

definition curvature_level :: "platform \<Rightarrow> ndarray2 \<Rightarrow> error + (nat \<Rightarrow> nat \<Rightarrow> float64)" where
  "curvature_level cv img =
     (case hessian cv img of
        None \<Rightarrow> Inl CvError
      | Some (dxx, dxy, dyy) \<Rightarrow>
          if same_shape img dxx \<and> same_shape img dxy \<and> same_shape img dyy
          then Inr (ratio cv dxx dxy dyy)
          else Inl ValueError)"

fun curvature_loop ::
  "platform \<Rightarrow> ndarray3 \<Rightarrow> nat list \<Rightarrow> error + (nat \<Rightarrow> nat \<Rightarrow> float64) list" where
  "curvature_loop cv DoG_pyramid [] = Inr []"
| "curvature_loop cv DoG_pyramid (l # ls) =
     (case curvature_level cv (slice3 DoG_pyramid l) of
        Inl e \<Rightarrow> Inl e
      | Inr r \<Rightarrow>
          (case curvature_loop cv DoG_pyramid ls of
             Inl e \<Rightarrow> Inl e
           | Inr rs \<Rightarrow> Inr (r # rs)))"

text \<open>The result starts as \<^verbatim>\<open>np.zeros(DoG_pyramid.shape)\<close>, an array of \<open>float64\<close>, and
  every level of it is assigned.\<close>

definition computePrincipalCurvature :: "platform \<Rightarrow> ndarray3 \<Rightarrow> error + farray3" where
  "computePrincipalCurvature cv DoG_pyramid =
     (case curvature_loop cv DoG_pyramid [0..<chans3 DoG_pyramid] of
        Inl e \<Rightarrow> Inl e
      | Inr rs \<Rightarrow>
          Inr \<lparr>frows3 = rows3 DoG_pyramid, fcols3 = cols3 DoG_pyramid,
                fchans3 = chans3 DoG_pyramid,
                fat3 = (\<lambda>y x l. if l < length rs then (rs ! l) y x else Finite 0)\<rparr>)"

section \<open>getLocalExtrema\<close>

text \<open>
  \<^verbatim>\<open>scipy.ndimage.maximum_filter(a, size=3)\<close> and \<open>minimum_filter\<close> in their default
  mode \<open>reflect\<close>: the window of an entry is the entry and its eight neighbours, and an
  index one step outside an axis is read at the nearest entry inside it
  (\<open>-1\<close> at \<open>0\<close>, \<open>n\<close> at \<open>n - 1\<close>). The filter of an array with no entry has no
  entry.
\<close>

definition reflect :: "nat \<Rightarrow> int \<Rightarrow> nat" where
  "reflect n i =
     (if i < 0 then nat (- i - 1) else if int n \<le> i then nat (2 * int n - i - 1) else nat i)"

definition window3 :: "ndarray2 \<Rightarrow> nat \<Rightarrow> nat \<Rightarrow> real list" where
  "window3 a y x =
     concat (map (\<lambda>dy. map (\<lambda>dx. at2 a (reflect (rows2 a) (int y + dy))
                                          (reflect (cols2 a) (int x + dx)))
                          [-1, 0, 1])
                 [-1, 0, 1])"

definition maximum_filter :: "ndarray2 \<Rightarrow> ndarray2" where
  "maximum_filter a = a\<lparr>at2 := (\<lambda>y x. fold max (window3 a y x) (at2 a y x))\<rparr>"

definition minimum_filter :: "ndarray2 \<Rightarrow> ndarray2" where
  "minimum_filter a = a\<lparr>at2 := (\<lambda>y x. fold min (window3 a y x) (at2 a y x))\<rparr>"

text \<open>Lines 115 to 129 for one level \<open>l\<close>: the mask \<open>is_extrema\<close> over the interior
  region.\<close>

definition is_extrema :: "ndarray3 \<Rightarrow> real \<Rightarrow> nat \<Rightarrow> nat \<Rightarrow> nat \<Rightarrow> bool" where
  "is_extrema DoG_pyramid th_contrast l y x =
     (let region = interior DoG_pyramid l;
          space_max = maximum_filter region;
          space_min = minimum_filter region;
          below = interior DoG_pyramid (l - 1);
          above = interior DoG_pyramid (l + 1);
          scale_max = maximum_filter (zip2 max below above);
          scale_min = minimum_filter (zip2 min below above)
      in (at2 region y x \<ge> max (at2 space_max y x) (at2 scale_max y x) \<or>
          at2 region y x \<le> min (at2 space_min y x) (at2 scale_min y x)) \<and>
         \<bar>at2 region y x\<bar> \<ge> th_contrast)"

text \<open>Lines 132 to 136: \<^verbatim>\<open>np.where\<close> lists the entries of the mask row by row; one is
  added to both indices, the two columns are swapped, and the level is appended: a row
  \<open>(x, y, l)\<close> per entry. The level column is \<open>l\<close> times a column of ones of type
  \<open>uint8\<close>; the product is \<open>l\<close> itself for every \<open>l\<close> up to 255, and the model takes it to
  be \<open>l\<close>.\<close>

definition level_extrema :: "ndarray3 \<Rightarrow> real \<Rightarrow> nat \<Rightarrow> (nat \<times> nat \<times> nat) list" where
  "level_extrema DoG_pyramid th_contrast l =
     concat (map (\<lambda>y. map (\<lambda>x. (x + 1, y + 1, l))
                          (filter (is_extrema DoG_pyramid th_contrast l y)
                                  [0..<cols3 DoG_pyramid - 2]))
                 [0..<rows3 DoG_pyramid - 2])"

text \<open>The loop over \<open>range(1, levels-1)\<close> and \<^verbatim>\<open>np.concatenate(res)\<close>, which raises a
  \<open>ValueError\<close> on an empty list. Neither \<open>DoG_levels\<close>, nor \<open>principal_curvature\<close>, nor
  \<open>th_r\<close> is read: line 130, the only one that would, is a comment. The function
  takes any object as its \<open>principal_curvature\<close>.\<close>

definition getLocalExtrema ::
  "ndarray3 \<Rightarrow> int list \<Rightarrow> 'c \<Rightarrow> real \<Rightarrow> real \<Rightarrow> error + (nat \<times> nat \<times> nat) list" where
  "getLocalExtrema DoG_pyramid DoG_levels principal_curvature th_contrast th_r =
     (let res = map (level_extrema DoG_pyramid th_contrast) [1..<chans3 DoG_pyramid - 1]
      in if res = [] then Inl ValueError else Inr (concat res))"

section \<open>DoGdetector\<close>

definition DoGdetector ::
  "platform \<Rightarrow> im_input \<Rightarrow> real \<Rightarrow> real \<Rightarrow> int list \<Rightarrow> real \<Rightarrow> real
     \<Rightarrow> error + (nat \<times> nat \<times> nat) list \<times> ndarray3" where
  "DoGdetector cv im sigma0 k levels th_contrast th_r =
     (case createGaussianPyramid cv im sigma0 k levels of
        Inl e \<Rightarrow> Inl e
      | Inr gauss_pyramid \<Rightarrow>
          (case createDoGPyramid cv gauss_pyramid levels of
             Inl e \<Rightarrow> Inl e
           | Inr (DoG_pyramid, DoG_levels) \<Rightarrow>
               (case computePrincipalCurvature cv DoG_pyramid of
                  Inl e \<Rightarrow> Inl e
                | Inr principal_curvature \<Rightarrow>
                    (case getLocalExtrema DoG_pyramid DoG_levels principal_curvature
                            th_contrast th_r of
                       Inl e \<Rightarrow> Inl e
                     | Inr locsDoG \<Rightarrow> Inr (locsDoG, gauss_pyramid)))))"

section \<open>Sample inputs\<close>

text \<open>A pyramid of \<open>float64\<close> written level by level: \<^verbatim>\<open>np.stack(ls, axis=-1)\<close> of
  \<open>imH\<close> by \<open>imW\<close> arrays.\<close>

definition from_levels :: "nat \<Rightarrow> nat \<Rightarrow> real list list list \<Rightarrow> ndarray3" where
  "from_levels imH imW ls =
     \<lparr>rows3 = imH, cols3 = imW, chans3 = length ls, dtype3 = Float64,
      at3 = (\<lambda>y x l. ls ! l ! y ! x)\<rparr>"

definition one_level :: ndarray3 where
  "one_level = from_levels 2 2 [[[1/2, 1/4], [1/8, 1]]]"

definition four_levels :: ndarray3 where
  "four_levels = from_levels 1 2 [[[1/2, 1/4]], [[1/4, 1/4]], [[1/8, 1/2]], [[0, 1]]]"

text \<open>A DoG pyramid of three levels, 4 by 4: the middle level is large on the border
  of the image and small inside it.\<close>

definition border_DoG :: ndarray3 where
  "border_DoG = from_levels 4 4
     [[[0, 0, 0, 0], [0, 0, 0, 0], [0, 0, 0, 0], [0, 0, 0, 0]],
      [[9/10, 9/10, 9/10, 9/10], [9/10, 1/10, 2/10, 9/10],
       [9/10, 2/10, 3/10, 9/10], [9/10, 9/10, 9/10, 9/10]],
      [[0, 0, 0, 0], [0, 0, 0, 0], [0, 0, 0, 0], [0, 0, 0, 0]]]"

text \<open>A gray image of floats, 3 by 3, with values between 0 and 1.\<close>

definition sample_im :: ndarray2 where
  "sample_im = \<lparr>rows2 = 3, cols2 = 3, dtype2 = Float64,
                 at2 = (\<lambda>y x. [[1/2, 1/4, 0], [1/4, 1, 1/4], [0, 1/4, 1/2]] ! y ! x)\<rparr>"

text \<open>Two arrays of \<open>uint8\<close>: a Gaussian pyramid of two levels, 1 by 1, with the
  entries 5 and 3, and a DoG pyramid of one level, 3 by 3, of zeros, the DoG pyramid
  of a black 8-bit image.\<close>

definition dark_levels :: ndarray3 where
  "dark_levels = \<lparr>rows3 = 1, cols3 = 1, chans3 = 2, dtype3 = UInt8,
                   at3 = (\<lambda>y x l. [5, 3] ! l)\<rparr>"

definition black_DoG :: ndarray3 where
  "black_DoG = \<lparr>rows3 = 3, cols3 = 3, chans3 = 1, dtype3 = UInt8, at3 = (\<lambda>y x l. 0)\<rparr>"

text \<open>
  A stand-in for the platform, to run the model on the sample inputs: \<open>cvtColor\<close> weighs
  the three channels of a BGR image, \<open>GaussianBlur\<close> accepts a kernel whose width and
  height are positive and odd, as OpenCV does, and then returns the image as it is, which
  is the result of a 1 by 1 kernel; \<open>Sobel\<close> returns its input, which is the derivative
  of a constant level when that level is zero. The arithmetic is exact: it is that of
  the floats wherever the exact result is a float, as for the halves, quarters and
  integers of the runs below; for the default \<open>k\<close>, the square root of 2, and
  the levels \<open>-1\<close>, \<open>0\<close> and \<open>1\<close> it gives the widths 5, 7 and 9, as the doubles
  do. The general theorems hold for every platform; the stand-in serves their closed
  instances only.
\<close>

definition cv_sample :: platform where
  "cv_sample =
     \<lparr>cvtColor =
        (\<lambda>c. if chans3 c = 3
             then Some \<lparr>rows2 = rows3 c, cols2 = cols3 c, dtype2 = dtype3 c,
                        at2 = (\<lambda>y x. 114 / 1000 * at3 c y x 0 + 587 / 1000 * at3 c y x 1
                                       + 299 / 1000 * at3 c y x 2)\<rparr>
             else None),
      GaussianBlur =
        (\<lambda>im ksize s. if 0 < fst ksize \<and> odd (fst ksize) \<and> 0 < snd ksize \<and> odd (snd ksize)
                      then Some im else None),
      Sobel = (\<lambda>im dx dy. Some im),
      round32 = (\<lambda>v. v),
      round64 = (\<lambda>v. v),
      fpow = power_int\<rparr>"

text \<open>What the stand-in makes of the sample image: \<open>n\<close> levels, each the image itself.\<close>

definition flat_pyramid :: "nat \<Rightarrow> ndarray3" where
  "flat_pyramid n = \<lparr>rows3 = rows2 sample_im, cols3 = cols2 sample_im, chans3 = n,
                       dtype3 = dtype2 sample_im,
                       at3 = (\<lambda>y x l. at2 (replicate n sample_im ! l) y x)\<rparr>"

section \<open>Reading an array\<close>

lemma interior_sel:
  "rows2 (interior a l) = rows3 a - 2" "cols2 (interior a l) = cols3 a - 2"
  "at2 (interior a l) y x = at3 a (y + 1) (x + 1) l"
  by (simp_all add: interior_def)

lemma zip2_sel:
  "rows2 (zip2 f a b) = rows2 a" "cols2 (zip2 f a b) = cols2 a"
  "at2 (zip2 f a b) y x = f (at2 a y x) (at2 b y x)"
  by (simp_all add: zip2_def)

lemma maximum_filter_sel:
  "rows2 (maximum_filter a) = rows2 a" "cols2 (maximum_filter a) = cols2 a"
  "at2 (maximum_filter a) y x = fold max (window3 a y x) (at2 a y x)"
  by (simp_all add: maximum_filter_def)

lemma minimum_filter_sel:
  "rows2 (minimum_filter a) = rows2 a" "cols2 (minimum_filter a) = cols2 a"
  "at2 (minimum_filter a) y x = fold min (window3 a y x) (at2 a y x)"
  by (simp_all add: minimum_filter_def)

lemma from_levels_sel:
  "rows3 (from_levels h w ls) = h" "cols3 (from_levels h w ls) = w"
  "chans3 (from_levels h w ls) = length ls" "dtype3 (from_levels h w ls) = Float64"
  "at3 (from_levels h w ls) y x l = ls ! l ! y ! x"
  by (simp_all add: from_levels_def)

lemmas sels = interior_sel zip2_sel maximum_filter_sel minimum_filter_sel from_levels_sel

lemma slice3_sel:
  "rows2 (slice3 a l) = rows3 a" "cols2 (slice3 a l) = cols3 a"
  "dtype2 (slice3 a l) = dtype3 a" "at2 (slice3 a l) y x = at3 a y x l"
  by (simp_all add: slice3_def)

lemma arith_sel:
  "rows2 (arith cv f a b) = rows2 a" "cols2 (arith cv f a b) = cols2 a"
  "dtype2 (arith cv f a b) = promote (dtype2 a) (dtype2 b)"
  "at2 (arith cv f a b) y x = cast cv (promote (dtype2 a) (dtype2 b)) (f (at2 a y x) (at2 b y x))"
  by (simp_all add: arith_def)

lemma square_sel:
  "rows2 (square cv a) = rows2 a" "cols2 (square cv a) = cols2 a"
  "dtype2 (square cv a) = dtype2 a"
  "at2 (square cv a) y x = cast cv (dtype2 a) ((at2 a y x)\<^sup>2)"
  by (simp_all add: square_def)

lemma det_of_sel:
  "dtype2 (det_of cv dxx dxy dyy) = promote (promote (dtype2 dxx) (dtype2 dyy)) (dtype2 dxy)"
  "at2 (det_of cv dxx dxy dyy) y x =
     (if at2 (arith cv (-) (arith cv (*) dxx dyy) (square cv dxy)) y x = 0
      then cast cv (promote (promote (dtype2 dxx) (dtype2 dyy)) (dtype2 dxy)) (fpow cv 10 (- 10))
      else at2 (arith cv (-) (arith cv (*) dxx dyy) (square cv dxy)) y x)"
  by (simp_all add: det_of_def Let_def arith_sel square_sel)

lemma promote_same: "promote d d = d"
  by (cases d) simp_all

lemma fold_promote_same: "list_all (\<lambda>e. e = d) ds \<Longrightarrow> fold promote ds d = d"
  by (induction ds) (simp_all add: promote_same)

lemma cv_sample_sel:
  "GaussianBlur cv_sample im ks s =
     (if 0 < fst ks \<and> odd (fst ks) \<and> 0 < snd ks \<and> odd (snd ks) then Some im else None)"
  "Sobel cv_sample im dx dy = Some im"
  "round32 cv_sample v = v" "round64 cv_sample v = v" "fpow cv_sample k i = power_int k i"
  by (simp_all add: cv_sample_def)

lemma cv_sample_cast: "d \<noteq> UInt8 \<Longrightarrow> cast cv_sample d v = v"
  by (cases d) (simp_all add: cast_def cv_sample_sel)

section \<open>The DoG pyramid\<close>

lemma DoG_loop_map:
  "list_all (\<lambda>i. i + 1 < chans3 gp) js \<Longrightarrow>
   DoG_loop cv gp js = Inr (map (\<lambda>i. arith cv (-) (slice3 gp (i + 1)) (slice3 gp i)) js)"
  by (induction js) simp_all

lemma stack_uniform:
  assumes "as \<noteq> []" "list_all (\<lambda>a. rows2 a = h \<and> cols2 a = w \<and> dtype2 a = d) as"
  shows "stack as = Inr \<lparr>rows3 = h, cols3 = w, chans3 = length as, dtype3 = d,
                          at3 = (\<lambda>y x l. at2 (as ! l) y x)\<rparr>"
proof (cases as)
  case Nil
  with assms show ?thesis by simp
next
  case (Cons a bs)
  with assms have "list_all (same_shape a) bs"
    by (auto simp: list_all_iff same_shape_def)
  moreover from Cons assms have "list_all (\<lambda>e. e = d) (map dtype2 bs)" "dtype2 a = d"
    by (auto simp: list_all_iff)
  then have "fold promote (map dtype2 bs) (dtype2 a) = d"
    using fold_promote_same by simp
  ultimately show ?thesis using Cons assms by simp
qed

lemma createDoGPyramid_Inr:
  assumes "chans3 gp = length levels" and "2 \<le> length levels"
  shows "\<exists>D lv. createDoGPyramid cv gp levels = Inr (D, lv) \<and>
           chans3 D = length levels - 1 \<and> rows3 D = rows3 gp \<and> cols3 D = cols3 gp \<and>
           dtype3 D = dtype3 gp \<and>
           (\<forall>j y x. j < length levels - 1 \<and> y < rows3 gp \<and> x < cols3 gp \<longrightarrow>
              at3 D y x j = cast cv (dtype3 gp) (at3 gp y x (j + 1) - at3 gp y x j))"
proof -
  let ?js = "[0..<length levels - 1]"
  let ?ds = "map (\<lambda>i. arith cv (-) (slice3 gp (i + 1)) (slice3 gp i)) ?js"
  have "list_all (\<lambda>i. i + 1 < chans3 gp) ?js"
    using assms by (auto simp: list_all_iff)
  then have loop: "DoG_loop cv gp ?js = Inr ?ds"
    by (rule DoG_loop_map)
  have ne: "?ds \<noteq> []"
    using assms by simp
  have "list_all (\<lambda>a. rows2 a = rows3 gp \<and> cols2 a = cols3 gp \<and> dtype2 a = dtype3 gp) ?ds"
    by (simp add: list_all_iff arith_sel slice3_sel promote_same)
  from stack_uniform [OF ne this]
  have st: "stack ?ds = Inr \<lparr>rows3 = rows3 gp, cols3 = cols3 gp, chans3 = length ?ds,
                              dtype3 = dtype3 gp, at3 = (\<lambda>y x l. at2 (?ds ! l) y x)\<rparr>" .
  have "createDoGPyramid cv gp levels =
          Inr (\<lparr>rows3 = rows3 gp, cols3 = cols3 gp, chans3 = length ?ds,
                 dtype3 = dtype3 gp, at3 = (\<lambda>y x l. at2 (?ds ! l) y x)\<rparr>, map int ?js)"
    by (simp only: createDoGPyramid_def Let_def loop sum.case st)
  then show ?thesis
    by (simp add: arith_sel slice3_sel promote_same)
qed

text \<open>On a pyramid of \<open>uint8\<close> the difference wraps around: the levels 5 and 3 give
  the DoG level \<open>3 - 5 = 254\<close>.\<close>

lemma createDoGPyramid_uint8:
  "map_sum id (\<lambda>r. (dtype3 (fst r), at3 (fst r) 0 0 0)) (createDoGPyramid cv dark_levels [0, 1])
     = Inr (UInt8, 254)"
  by (simp add: createDoGPyramid_def dark_levels_def arith_sel slice3_sel cast_def)

text \<open>
  Claim C1, as the code has it. A Gaussian pyramid with a single level, given with its
  one-entry \<open>levels\<close>, leaves \<^verbatim>\<open>np.stack\<close> with no array to stack: the call raises a
  \<open>ValueError\<close> instead of returning a pyramid with no level.
\<close>

theorem createDoGPyramid_single_level:
  "chans3 one_level = length [0 :: int] \<and>
   createDoGPyramid cv_sample one_level [0] = Inl ValueError"
  by (simp add: createDoGPyramid_def one_level_def from_levels_def)

text \<open>
  Claim C1, amended: for a Gaussian pyramid of finite floats with \<open>L = len(levels)\<close> levels and
  \<open>L \<ge> 2\<close>, \<open>createDoGPyramid\<close> returns a DoG pyramid of the same element type with
  exactly \<open>L - 1\<close> levels of the height and width of the Gaussian levels, and level \<open>j\<close>
  of it is, at every pixel, Gaussian level \<open>j + 1\<close> minus Gaussian level \<open>j\<close>, rounded
  to the element type, for every \<open>j\<close> from \<open>0\<close> to \<open>L - 2\<close>.
\<close>

theorem createDoGPyramid_levels:
  assumes "chans3 gp = length levels" and "2 \<le> length levels" and "dtype3 gp \<noteq> UInt8"
  shows "\<exists>D lv. createDoGPyramid cv gp levels = Inr (D, lv) \<and>
           chans3 D = length levels - 1 \<and> rows3 D = rows3 gp \<and> cols3 D = cols3 gp \<and>
           dtype3 D = dtype3 gp \<and>
           (\<forall>j y x. j < length levels - 1 \<and> y < rows3 gp \<and> x < cols3 gp \<longrightarrow>
              at3 D y x j =
                (if dtype3 gp = Float32 then round32 cv (at3 gp y x (j + 1) - at3 gp y x j)
                 else round64 cv (at3 gp y x (j + 1) - at3 gp y x j)))"
proof -
  have c: "(if dtype3 gp = Float32 then round32 cv v else round64 cv v) = cast cv (dtype3 gp) v"
    for v
    using assms(3) by (cases "dtype3 gp") (simp_all add: cast_def)
  show ?thesis
    unfolding c by (rule createDoGPyramid_Inr [OF assms(1,2)])
qed

theorem createDoGPyramid_levels_witness:
  "chans3 four_levels = length [0, 1, 2, 3 :: int] \<and> 2 \<le> length [0, 1, 2, 3 :: int] \<and>
   dtype3 four_levels \<noteq> UInt8 \<and>
   (\<exists>D lv. createDoGPyramid cv_sample four_levels [0, 1, 2, 3] = Inr (D, lv) \<and>
      chans3 D = length [0, 1, 2, 3 :: int] - 1 \<and>
      rows3 D = rows3 four_levels \<and> cols3 D = cols3 four_levels \<and>
      dtype3 D = dtype3 four_levels \<and>
      (\<forall>j y x. j < length [0, 1, 2, 3 :: int] - 1 \<and> y < rows3 four_levels \<and>
                 x < cols3 four_levels \<longrightarrow>
         at3 D y x j =
           (if dtype3 four_levels = Float32
            then round32 cv_sample (at3 four_levels y x (j + 1) - at3 four_levels y x j)
            else round64 cv_sample (at3 four_levels y x (j + 1) - at3 four_levels y x j))))"
proof -
  have a: "chans3 four_levels = length [0, 1, 2, 3 :: int]"
    by (simp add: four_levels_def from_levels_def)
  have b: "2 \<le> length [0, 1, 2, 3 :: int]"
    by simp
  have c: "dtype3 four_levels \<noteq> UInt8"
    by (simp add: four_levels_def from_levels_def)
  from a b c createDoGPyramid_levels [OF a b c] show ?thesis
    by (intro conjI)
qed

text \<open>
  Claim C7: the second output is documented as \<open>levels[1:]\<close>. The code returns
  \<open>range(len(levels)-1)\<close>, the indices from \<open>0\<close>: for \<open>levels = [0, 1, 2, 3]\<close> it is
  \<open>[0, 1, 2]\<close>, and \<open>levels[1:]\<close> is \<open>[1, 2, 3]\<close>.
\<close>

theorem createDoGPyramid_DoG_levels:
  "map_sum id snd (createDoGPyramid cv_sample four_levels [0, 1, 2, 3]) = Inr [0, 1, 2] \<and>
   tl [0, 1, 2, 3 :: int] = [1, 2, 3]"
  by (simp add: createDoGPyramid_def four_levels_def from_levels_def upt_rec arith_def
        slice3_def same_shape_def)

section \<open>The detector\<close>

lemma level_extrema_set:
  "set (level_extrema D th l) =
     {(x + 1, y + 1, l) | x y. y < rows3 D - 2 \<and> x < cols3 D - 2 \<and> is_extrema D th l y x}"
  unfolding level_extrema_def by auto

lemma level_extrema_iff:
  "(x, y, l') \<in> set (level_extrema D th l) \<longleftrightarrow>
     l' = l \<and> 1 \<le> x \<and> x + 1 < cols3 D \<and> 1 \<le> y \<and> y + 1 < rows3 D \<and>
     is_extrema D th l (y - 1) (x - 1)"
proof
  assume "(x, y, l') \<in> set (level_extrema D th l)"
  then obtain x0 y0 where "x = x0 + 1" "y = y0 + 1" "l' = l" "y0 < rows3 D - 2"
      "x0 < cols3 D - 2" "is_extrema D th l y0 x0"
    unfolding level_extrema_set by auto
  then show "l' = l \<and> 1 \<le> x \<and> x + 1 < cols3 D \<and> 1 \<le> y \<and> y + 1 < rows3 D \<and>
     is_extrema D th l (y - 1) (x - 1)"
    by (simp add: less_diff_conv)
next
  assume a: "l' = l \<and> 1 \<le> x \<and> x + 1 < cols3 D \<and> 1 \<le> y \<and> y + 1 < rows3 D \<and>
     is_extrema D th l (y - 1) (x - 1)"
  then have "x = (x - 1) + 1" "y = (y - 1) + 1" "y - 1 < rows3 D - 2" "x - 1 < cols3 D - 2"
    by auto
  with a show "(x, y, l') \<in> set (level_extrema D th l)"
    unfolding level_extrema_set by blast
qed

lemma getLocalExtrema_iff:
  "getLocalExtrema D lv pc th r = Inr ks \<Longrightarrow>
   (x, y, l) \<in> set ks \<longleftrightarrow>
     1 \<le> l \<and> l + 1 < chans3 D \<and> (x, y, l) \<in> set (level_extrema D th l)"
  unfolding getLocalExtrema_def Let_def
  by (auto simp: level_extrema_iff split: if_splits)

lemma is_extrema_contrast:
  "is_extrema D th l y x \<Longrightarrow> th \<le> \<bar>at3 D (y + 1) (x + 1) l\<bar>"
  by (simp add: is_extrema_def Let_def interior_def)

text \<open>The detector on the sample pyramid: of the four pixels of the interior region of
  level 1, only the last one is an extremum.\<close>

lemma border_is_extrema:
  "\<not> is_extrema border_DoG (3/100) (Suc 0) 0 0"
  "\<not> is_extrema border_DoG (3/100) (Suc 0) 0 (Suc 0)"
  "\<not> is_extrema border_DoG (3/100) (Suc 0) (Suc 0) 0"
  "is_extrema border_DoG (3/100) (Suc 0) (Suc 0) (Suc 0)"
  unfolding is_extrema_def Let_def
  by (simp_all add: sels window3_def reflect_def border_DoG_def)

lemma border_shape: "rows3 border_DoG = 4" "cols3 border_DoG = 4" "chans3 border_DoG = 3"
  by (simp_all add: border_DoG_def from_levels_def)

lemma border_run: "getLocalExtrema border_DoG lv pc (3/100) r = Inr [(2, 2, 1)]"
  unfolding getLocalExtrema_def level_extrema_def Let_def border_shape
  by (simp add: upt_rec border_is_extrema)


text \<open>
  Claim C2: for a DoG pyramid of height \<open>H\<close>, width \<open>W\<close> and \<open>L - 1\<close> levels and every
  contrast threshold, every keypoint \<open>(x, y, level)\<close> that \<open>getLocalExtrema\<close> returns has
  \<open>1 \<le> x \<le> W - 2\<close> and \<open>1 \<le> y \<le> H - 2\<close>, has a DoG value at \<open>(x, y, level)\<close> of
  absolute value at least the threshold, and has its level between \<open>1\<close> and \<open>L - 3\<close>
  (the pyramid has \<open>chans3 D = L - 1\<close> levels).
\<close>

theorem getLocalExtrema_interior:
  assumes "getLocalExtrema D lv pc th_contrast th_r = Inr ks" and "(x, y, l) \<in> set ks"
  shows "1 \<le> x \<and> x + 2 \<le> cols3 D \<and> 1 \<le> y \<and> y + 2 \<le> rows3 D \<and>
         th_contrast \<le> \<bar>at3 D y x l\<bar> \<and> 1 \<le> l \<and> l + 2 \<le> chans3 D"
  using assms getLocalExtrema_iff [OF assms(1), of x y l]
    is_extrema_contrast [of D th_contrast l "y - 1" "x - 1"]
  by (auto simp: level_extrema_iff)

theorem getLocalExtrema_interior_witness:
  "getLocalExtrema border_DoG [0, 1, 2] border_DoG (3/100) 12 = Inr [(2, 2, 1)] \<and>
   (2, 2, 1) \<in> set [(2 :: nat, 2 :: nat, 1 :: nat)] \<and>
   1 \<le> (2 :: nat) \<and> 2 + 2 \<le> cols3 border_DoG \<and> 1 \<le> (2 :: nat) \<and> 2 + 2 \<le> rows3 border_DoG \<and>
   3/100 \<le> \<bar>at3 border_DoG 2 2 1\<bar> \<and> 1 \<le> (1 :: nat) \<and> 1 + 2 \<le> chans3 border_DoG"
proof -
  have a: "getLocalExtrema border_DoG [0, 1, 2] border_DoG (3/100) 12 = Inr [(2, 2, 1)]"
    by (rule border_run)
  have b: "(2, 2, 1) \<in> set [(2 :: nat, 2 :: nat, 1 :: nat)]"
    by simp
  from a b getLocalExtrema_interior [OF a b] show ?thesis
    by (intro conjI) simp_all
qed

text \<open>
  Claim C3: the keypoints returned by \<open>getLocalExtrema\<close> and by \<open>DoGdetector\<close> are the
  same for any two values of \<open>th_r\<close>, all other inputs fixed: the curvature ratio is
  computed, and the threshold on it is never applied.
\<close>

theorem threshold_r_unused:
  "getLocalExtrema D lv pc th r1 = getLocalExtrema D lv pc th r2 \<and>
   DoGdetector cv im sigma0 k levels th r1 = DoGdetector cv im sigma0 k levels th r2"
  unfolding DoGdetector_def getLocalExtrema_def by simp

lemma is_extrema_mono:
  "th1 \<le> th2 \<Longrightarrow> is_extrema D th2 l y x \<Longrightarrow> is_extrema D th1 l y x"
  unfolding is_extrema_def Let_def by linarith

lemma length_filter_mono:
  "(\<And>x. x \<in> set xs \<Longrightarrow> P x \<Longrightarrow> Q x) \<Longrightarrow> length (filter P xs) \<le> length (filter Q xs)"
  by (induction xs) auto

lemma level_extrema_mono:
  assumes "th1 \<le> th2"
  shows "set (level_extrema D th2 l) \<subseteq> set (level_extrema D th1 l)"
    and "length (level_extrema D th2 l) \<le> length (level_extrema D th1 l)"
proof -
  show "set (level_extrema D th2 l) \<subseteq> set (level_extrema D th1 l)"
    unfolding level_extrema_set using is_extrema_mono [OF assms] by blast
  show "length (level_extrema D th2 l) \<le> length (level_extrema D th1 l)"
    unfolding level_extrema_def length_concat map_map comp_def length_map
    by (intro sum_list_mono length_filter_mono is_extrema_mono [OF assms])
qed

lemma getLocalExtrema_mono:
  assumes "th1 \<le> th2"
  shows "case (getLocalExtrema D lv pc th1 r, getLocalExtrema D lv pc th2 r) of
           (Inr ks1, Inr ks2) \<Rightarrow> set ks2 \<subseteq> set ks1 \<and> length ks2 \<le> length ks1
         | (Inl e1, Inl e2) \<Rightarrow> e1 = e2
         | _ \<Rightarrow> False"
proof (cases "[1..<chans3 D - 1] = []")
  case True
  then show ?thesis by (simp add: getLocalExtrema_def)
next
  case False
  have "set (concat (map (level_extrema D th2) [1..<chans3 D - 1]))
          \<subseteq> set (concat (map (level_extrema D th1) [1..<chans3 D - 1]))"
    using level_extrema_mono(1) [OF assms] by fastforce
  moreover have "length (concat (map (level_extrema D th2) [1..<chans3 D - 1]))
          \<le> length (concat (map (level_extrema D th1) [1..<chans3 D - 1]))"
    unfolding length_concat map_map comp_def
    by (intro sum_list_mono level_extrema_mono(2) [OF assms])
  ultimately show ?thesis using False by (simp add: getLocalExtrema_def)
qed

text \<open>
  Claim C6: for a fixed image and fixed remaining parameters, if
  \<open>th_contrast1 \<le> th_contrast2\<close> then the keypoints detected with \<open>th_contrast2\<close> are
  among those detected with \<open>th_contrast1\<close>, and they are not more numerous. Both for
  \<open>getLocalExtrema\<close> on a DoG pyramid and for \<open>DoGdetector\<close> on an image; a call that
  raises does so with both thresholds, and the returned Gaussian pyramids are the same.
\<close>

theorem contrast_monotone:
  assumes "th1 \<le> th2"
  shows "(case (getLocalExtrema D lv pc th1 r, getLocalExtrema D lv pc th2 r) of
            (Inr ks1, Inr ks2) \<Rightarrow> set ks2 \<subseteq> set ks1 \<and> length ks2 \<le> length ks1
          | (Inl e1, Inl e2) \<Rightarrow> e1 = e2
          | _ \<Rightarrow> False) \<and>
         (case (DoGdetector cv im sigma0 k levels th1 r, DoGdetector cv im sigma0 k levels th2 r) of
            (Inr (ks1, g1), Inr (ks2, g2)) \<Rightarrow>
              g1 = g2 \<and> set ks2 \<subseteq> set ks1 \<and> length ks2 \<le> length ks1
          | (Inl e1, Inl e2) \<Rightarrow> e1 = e2
          | _ \<Rightarrow> False)"
proof
  show "case (getLocalExtrema D lv pc th1 r, getLocalExtrema D lv pc th2 r) of
            (Inr ks1, Inr ks2) \<Rightarrow> set ks2 \<subseteq> set ks1 \<and> length ks2 \<le> length ks1
          | (Inl e1, Inl e2) \<Rightarrow> e1 = e2
          | _ \<Rightarrow> False"
    by (rule getLocalExtrema_mono [OF assms])
  show "case (DoGdetector cv im sigma0 k levels th1 r, DoGdetector cv im sigma0 k levels th2 r) of
            (Inr (ks1, g1), Inr (ks2, g2)) \<Rightarrow>
              g1 = g2 \<and> set ks2 \<subseteq> set ks1 \<and> length ks2 \<le> length ks1
          | (Inl e1, Inl e2) \<Rightarrow> e1 = e2
          | _ \<Rightarrow> False"
  proof (cases "createGaussianPyramid cv im sigma0 k levels")
    case (Inl e)
    then show ?thesis by (simp add: DoGdetector_def)
  next
    case gp: (Inr g)
    show ?thesis
    proof (cases "createDoGPyramid cv g levels")
      case (Inl e)
      with gp show ?thesis by (simp add: DoGdetector_def)
    next
      case (Inr dl)
      obtain d dlv where dl: "dl = (d, dlv)" by (cases dl)
      show ?thesis
      proof (cases "computePrincipalCurvature cv d")
        case (Inl e)
        with gp Inr dl show ?thesis by (simp add: DoGdetector_def)
      next
        case pc: (Inr p)
        from getLocalExtrema_mono [OF assms, of d dlv p r] gp Inr dl pc
        show ?thesis
          by (auto simp: DoGdetector_def split: sum.splits)
      qed
    qed
  qed
qed

theorem contrast_monotone_witness:
  "(3/100 :: real) \<le> 1/2 \<and>
   (case (getLocalExtrema border_DoG [0, 1, 2] border_DoG (3/100) 12,
          getLocalExtrema border_DoG [0, 1, 2] border_DoG (1/2) 12) of
      (Inr ks1, Inr ks2) \<Rightarrow> set ks2 \<subseteq> set ks1 \<and> length ks2 \<le> length ks1
    | (Inl e1, Inl e2) \<Rightarrow> e1 = e2
    | _ \<Rightarrow> False) \<and>
   (case (DoGdetector cv_sample (Gray sample_im) 1 2 [0, 1, 2, 3] (3/100) 12,
          DoGdetector cv_sample (Gray sample_im) 1 2 [0, 1, 2, 3] (1/2) 12) of
      (Inr (ks1, g1), Inr (ks2, g2)) \<Rightarrow>
        g1 = g2 \<and> set ks2 \<subseteq> set ks1 \<and> length ks2 \<le> length ks1
    | (Inl e1, Inl e2) \<Rightarrow> e1 = e2
    | _ \<Rightarrow> False)"
proof -
  have a: "(3/100 :: real) \<le> 1/2"
    by simp
  have "(case (getLocalExtrema border_DoG [0, 1, 2] border_DoG (3/100) 12,
          getLocalExtrema border_DoG [0, 1, 2] border_DoG (1/2) 12) of
      (Inr ks1, Inr ks2) \<Rightarrow> set ks2 \<subseteq> set ks1 \<and> length ks2 \<le> length ks1
    | (Inl e1, Inl e2) \<Rightarrow> e1 = e2
    | _ \<Rightarrow> False) \<and>
   (case (DoGdetector cv_sample (Gray sample_im) 1 2 [0, 1, 2, 3] (3/100) 12,
          DoGdetector cv_sample (Gray sample_im) 1 2 [0, 1, 2, 3] (1/2) 12) of
      (Inr (ks1, g1), Inr (ks2, g2)) \<Rightarrow>
        g1 = g2 \<and> set ks2 \<subseteq> set ks1 \<and> length ks2 \<le> length ks1
    | (Inl e1, Inl e2) \<Rightarrow> e1 = e2
    | _ \<Rightarrow> False)"
    by (rule contrast_monotone [OF a])
  with a show ?thesis
    by (rule conjI)
qed

text \<open>The detector reads the interior region of each level only: two DoG pyramids of one
  shape that agree off the one-pixel border of every level give the same result.\<close>

lemma reflect_lt:
  assumes "y < n" and "i = int y - 1 \<or> i = int y \<or> i = int y + 1"
  shows "reflect n i < n"
  using assms by (auto simp: reflect_def)

lemma window3_cong:
  assumes "rows2 a = rows2 b" and "cols2 a = cols2 b"
    and "\<And>y x. y < rows2 a \<Longrightarrow> x < cols2 a \<Longrightarrow> at2 a y x = at2 b y x"
    and "y < rows2 a" and "x < cols2 a"
  shows "window3 a y x = window3 b y x"
proof -
  have "at2 a (reflect (rows2 a) i) (reflect (cols2 a) j) =
        at2 b (reflect (rows2 a) i) (reflect (cols2 a) j)"
    if "i = int y - 1 \<or> i = int y \<or> i = int y + 1" "j = int x - 1 \<or> j = int x \<or> j = int x + 1"
    for i j
    by (intro assms(3) reflect_lt [OF assms(4) that(1)] reflect_lt [OF assms(5) that(2)])
  then show ?thesis
    unfolding window3_def assms(1,2) [symmetric] by simp
qed

lemma is_extrema_cong:
  assumes "rows3 D = rows3 D'" and "cols3 D = cols3 D'"
    and "\<And>y x m. 1 \<le> y \<Longrightarrow> y + 1 < rows3 D \<Longrightarrow> 1 \<le> x \<Longrightarrow> x + 1 < cols3 D \<Longrightarrow>
           m \<le> l + 1 \<Longrightarrow> at3 D y x m = at3 D' y x m"
    and "y < rows3 D - 2" and "x < cols3 D - 2"
  shows "is_extrema D th l y x = is_extrema D' th l y x"
proof -
  have i: "at3 D (Suc v) (Suc u) m = at3 D' (Suc v) (Suc u) m"
    if "v < rows3 D - 2" "u < cols3 D - 2" "m \<le> l + 1" for m v u
    by (rule assms(3)) (use that in auto)
  have w: "window3 (interior D m) y x = window3 (interior D' m) y x" if "m \<le> l + 1" for m
    using that by (intro window3_cong) (simp_all add: interior_sel i assms(1,2) [symmetric] assms(4,5))
  have z: "window3 (zip2 f (interior D m) (interior D n)) y x =
           window3 (zip2 f (interior D' m) (interior D' n)) y x"
    if "m \<le> l + 1" "n \<le> l + 1" for f m n
    using that by (intro window3_cong)
      (simp_all add: interior_sel zip2_sel i assms(1,2) [symmetric] assms(4,5))
  have "l \<le> l + 1" "l - 1 \<le> l + 1" "l + 1 \<le> l + 1"
    by simp_all
  note w' = w [OF this(1)] and z' = z [OF this(2,3)]
  show ?thesis
    unfolding is_extrema_def Let_def maximum_filter_sel minimum_filter_sel zip2_sel w' z'
    using assms(4,5) by (simp add: interior_sel i)
qed

lemma getLocalExtrema_cong:
  assumes "rows3 D = rows3 D'" and "cols3 D = cols3 D'" and "chans3 D = chans3 D'"
    and "\<And>y x l. 1 \<le> y \<Longrightarrow> y + 1 < rows3 D \<Longrightarrow> 1 \<le> x \<Longrightarrow> x + 1 < cols3 D \<Longrightarrow>
           l < chans3 D \<Longrightarrow> at3 D y x l = at3 D' y x l"
  shows "getLocalExtrema D lv pc th r = getLocalExtrema D' lv' pc' th r'"
proof -
  have "level_extrema D th l = level_extrema D' th l" if "l \<in> set [1..<chans3 D - 1]" for l
    unfolding level_extrema_def assms(1,2) [symmetric]
    by (intro arg_cong [where f = concat] map_cong arg_cong [where f = "map _"] filter_cong refl
          is_extrema_cong assms) (use that in auto)
  then have m: "map (level_extrema D th) [1..<chans3 D - 1] =
                map (level_extrema D' th) [1..<chans3 D - 1]"
    by (intro map_cong refl)
  show ?thesis
    unfolding getLocalExtrema_def assms(3) [symmetric] m ..
qed


section \<open>The Gaussian pyramid\<close>

lemma blur_levels_iff:
  "blur_levels cv im sigma0 k levels = Inr bs \<longleftrightarrow>
   length bs = length levels \<and>
   (\<forall>j<length levels. \<not> (k = 0 \<and> levels ! j < 0) \<and>
      GaussianBlur cv im (kernel_size cv (sigma_i cv sigma0 k (levels ! j)),
                          kernel_size cv (sigma_i cv sigma0 k (levels ! j)))
        (sigma_i cv sigma0 k (levels ! j)) = Some (bs ! j))"
proof (induction levels arbitrary: bs)
  case Nil
  then show ?case by auto
next
  case (Cons i levels)
  show ?case
  proof (cases bs)
    case Nil
    then show ?thesis
      by (auto split: option.splits sum.splits)
  next
    case c: (Cons b bs')
    have "blur_levels cv im sigma0 k (i # levels) = Inr (b # bs') \<longleftrightarrow>
          \<not> (k = 0 \<and> i < 0) \<and>
          GaussianBlur cv im (kernel_size cv (sigma_i cv sigma0 k i),
                              kernel_size cv (sigma_i cv sigma0 k i))
            (sigma_i cv sigma0 k i) = Some b \<and>
          blur_levels cv im sigma0 k levels = Inr bs'"
      by (auto split: option.splits sum.splits)
    also have "\<dots> \<longleftrightarrow>
          length (b # bs') = length (i # levels) \<and>
          (\<forall>j<length (i # levels). \<not> (k = 0 \<and> (i # levels) ! j < 0) \<and>
             GaussianBlur cv im (kernel_size cv (sigma_i cv sigma0 k ((i # levels) ! j)),
                                 kernel_size cv (sigma_i cv sigma0 k ((i # levels) ! j)))
               (sigma_i cv sigma0 k ((i # levels) ! j)) = Some ((b # bs') ! j))"
      unfolding Cons.IH [of bs'] by (auto simp: All_less_Suc2)
    finally show ?thesis
      unfolding c .
  qed
qed

lemma blur_levels_Inr:
  "blur_levels cv im sigma0 k levels = Inr bs \<Longrightarrow>
   length bs = length levels \<and>
   (\<forall>j<length levels.
      GaussianBlur cv im (kernel_size cv (sigma_i cv sigma0 k (levels ! j)),
                          kernel_size cv (sigma_i cv sigma0 k (levels ! j)))
        (sigma_i cv sigma0 k (levels ! j)) = Some (bs ! j))"
  by (simp add: blur_levels_iff)

lemma blur_levels_Inl:
  "blur_levels cv im sigma0 k levels = Inl e \<Longrightarrow> e = ZeroDivisionError \<or> e = CvError"
  by (induction levels) (auto split: if_splits option.splits sum.splits)

text \<open>The loop stops at the first level that raises.\<close>

lemma blur_levels_stop:
  assumes "j < length levels"
    and "\<forall>i<j. \<not> (k = 0 \<and> levels ! i < 0) \<and>
           GaussianBlur cv im (kernel_size cv (sigma_i cv sigma0 k (levels ! i)),
                               kernel_size cv (sigma_i cv sigma0 k (levels ! i)))
             (sigma_i cv sigma0 k (levels ! i)) \<noteq> None"
  shows "k = 0 \<and> levels ! j < 0 \<Longrightarrow> blur_levels cv im sigma0 k levels = Inl ZeroDivisionError"
    and "\<not> (k = 0 \<and> levels ! j < 0) \<Longrightarrow>
         GaussianBlur cv im (kernel_size cv (sigma_i cv sigma0 k (levels ! j)),
                             kernel_size cv (sigma_i cv sigma0 k (levels ! j)))
           (sigma_i cv sigma0 k (levels ! j)) = None \<Longrightarrow>
         blur_levels cv im sigma0 k levels = Inl CvError"
  using assms
proof (induction levels arbitrary: j)
  case Nil
  {
    case 1
    then show ?case by simp
  next
    case 2
    then show ?case by simp
  }
next
  case (Cons a levels)
  {
    case 1
    show ?case
    proof (cases j)
      case 0
      with 1 show ?thesis by simp
    next
      case (Suc j')
      from 1(3) Suc have h: "\<not> (k = 0 \<and> a < 0)"
        "GaussianBlur cv im (kernel_size cv (sigma_i cv sigma0 k a),
                             kernel_size cv (sigma_i cv sigma0 k a))
           (sigma_i cv sigma0 k a) \<noteq> None"
        by force+
      from 1(3) Suc have t: "\<forall>i<j'. \<not> (k = 0 \<and> levels ! i < 0) \<and>
           GaussianBlur cv im (kernel_size cv (sigma_i cv sigma0 k (levels ! i)),
                               kernel_size cv (sigma_i cv sigma0 k (levels ! i)))
             (sigma_i cv sigma0 k (levels ! i)) \<noteq> None"
        by force
      from 1(1,2) Suc have "k = 0 \<and> levels ! j' < 0" "j' < length levels"
        by simp_all
      from Cons.IH(1) [OF this t] h show ?thesis
        by (auto split: option.splits)
    qed
  next
    case 2
    show ?case
    proof (cases j)
      case 0
      with 2 show ?thesis by simp
    next
      case (Suc j')
      from 2(4) Suc have h: "\<not> (k = 0 \<and> a < 0)"
        "GaussianBlur cv im (kernel_size cv (sigma_i cv sigma0 k a),
                             kernel_size cv (sigma_i cv sigma0 k a))
           (sigma_i cv sigma0 k a) \<noteq> None"
        by force+
      from 2(4) Suc have t: "\<forall>i<j'. \<not> (k = 0 \<and> levels ! i < 0) \<and>
           GaussianBlur cv im (kernel_size cv (sigma_i cv sigma0 k (levels ! i)),
                               kernel_size cv (sigma_i cv sigma0 k (levels ! i)))
             (sigma_i cv sigma0 k (levels ! i)) \<noteq> None"
        by force
      from 2(1,2,3) Suc have "\<not> (k = 0 \<and> levels ! j' < 0)"
        "GaussianBlur cv im (kernel_size cv (sigma_i cv sigma0 k (levels ! j')),
                             kernel_size cv (sigma_i cv sigma0 k (levels ! j')))
           (sigma_i cv sigma0 k (levels ! j')) = None" "j' < length levels"
        by simp_all
      from Cons.IH(2) [OF this t] h show ?thesis
        by (auto split: option.splits)
    qed
  }
qed

lemma stack_Inr:
  "stack bs = Inr gp \<Longrightarrow>
   bs \<noteq> [] \<and> chans3 gp = length bs \<and> rows3 gp = rows2 (hd bs) \<and> cols3 gp = cols2 (hd bs) \<and>
   at3 gp = (\<lambda>y x l. at2 (bs ! l) y x)"
  by (cases bs) (auto split: if_splits)

lemma stack_Inl: "stack bs = Inl e \<Longrightarrow> e = ValueError"
  by (cases bs) (auto split: if_splits)

lemma amax_Inl: "amax a = Inl e \<Longrightarrow> e = ValueError"
  by (auto simp: amax_def split: list.splits)

lemma createGaussianPyramid_Inl:
  "createGaussianPyramid cv im sigma0 k levels = Inl e \<Longrightarrow>
   e = ValueError \<or> e = ZeroDivisionError \<or> e = CvError"
  unfolding createGaussianPyramid_def to_gray_def normalize_def
  by (auto split: sum.splits im_input.splits option.splits dest: blur_levels_Inl stack_Inl amax_Inl)

lemma createGaussianPyramid_Inr:
  assumes "createGaussianPyramid cv im sigma0 k levels = Inr gp"
  shows "\<exists>g im' bs. to_gray cv im = Inr g \<and> normalize cv g = Inr im' \<and>
           blur_levels cv im' sigma0 k levels = Inr bs \<and> stack bs = Inr gp"
  using assms unfolding createGaussianPyramid_def
  by (auto split: sum.splits)

lemma createGaussianPyramid_chans:
  assumes "createGaussianPyramid cv im sigma0 k levels = Inr gp"
  shows "chans3 gp = length levels"
proof -
  from createGaussianPyramid_Inr [OF assms] obtain im' bs where
    "blur_levels cv im' sigma0 k levels = Inr bs" "stack bs = Inr gp"
    by blast
  with blur_levels_Inr [of cv im' sigma0 k levels bs] stack_Inr [of bs gp] show ?thesis
    by simp
qed

lemma createGaussianPyramid_iff:
  "createGaussianPyramid cv im sigma0 k levels = Inr gp \<longleftrightarrow>
     (\<exists>g im' bs. to_gray cv im = Inr g \<and> normalize cv g = Inr im' \<and>
        length bs = length levels \<and>
        (\<forall>j<length levels. \<not> (k = 0 \<and> levels ! j < 0) \<and>
           GaussianBlur cv im' (kernel_size cv (sigma_i cv sigma0 k (levels ! j)),
                                kernel_size cv (sigma_i cv sigma0 k (levels ! j)))
             (sigma_i cv sigma0 k (levels ! j)) = Some (bs ! j)) \<and>
        stack bs = Inr gp)"
proof
  assume "createGaussianPyramid cv im sigma0 k levels = Inr gp"
  from createGaussianPyramid_Inr [OF this] obtain g im' bs where
    "to_gray cv im = Inr g" "normalize cv g = Inr im'"
    "blur_levels cv im' sigma0 k levels = Inr bs" "stack bs = Inr gp"
    by blast
  then show "\<exists>g im' bs. to_gray cv im = Inr g \<and> normalize cv g = Inr im' \<and>
        length bs = length levels \<and>
        (\<forall>j<length levels. \<not> (k = 0 \<and> levels ! j < 0) \<and>
           GaussianBlur cv im' (kernel_size cv (sigma_i cv sigma0 k (levels ! j)),
                                kernel_size cv (sigma_i cv sigma0 k (levels ! j)))
             (sigma_i cv sigma0 k (levels ! j)) = Some (bs ! j)) \<and>
        stack bs = Inr gp"
    unfolding blur_levels_iff by blast
next
  assume "\<exists>g im' bs. to_gray cv im = Inr g \<and> normalize cv g = Inr im' \<and>
        length bs = length levels \<and>
        (\<forall>j<length levels. \<not> (k = 0 \<and> levels ! j < 0) \<and>
           GaussianBlur cv im' (kernel_size cv (sigma_i cv sigma0 k (levels ! j)),
                                kernel_size cv (sigma_i cv sigma0 k (levels ! j)))
             (sigma_i cv sigma0 k (levels ! j)) = Some (bs ! j)) \<and>
        stack bs = Inr gp"
  then obtain g im' bs where g: "to_gray cv im = Inr g" "normalize cv g = Inr im'"
    and s: "stack bs = Inr gp"
    and b: "length bs = length levels \<and>
        (\<forall>j<length levels. \<not> (k = 0 \<and> levels ! j < 0) \<and>
           GaussianBlur cv im' (kernel_size cv (sigma_i cv sigma0 k (levels ! j)),
                                kernel_size cv (sigma_i cv sigma0 k (levels ! j)))
             (sigma_i cv sigma0 k (levels ! j)) = Some (bs ! j))"
    by blast
  from b have "blur_levels cv im' sigma0 k levels = Inr bs"
    unfolding blur_levels_iff .
  with g s show "createGaussianPyramid cv im sigma0 k levels = Inr gp"
    by (simp add: createGaussianPyramid_def)
qed

text \<open>With the exact arithmetic of the stand-in the standard deviation is
  \<open>sigma0 * k^i\<close> and the width is \<open>floor(3 * sigma * 2) + 1\<close>.\<close>

lemma py_int_of_int: "py_int (of_int n) = n"
  by (simp add: py_int_def)

lemma cv_sample_sigma_i: "sigma_i cv_sample sigma0 k i = sigma0 * power_int k i"
  by (simp add: sigma_i_def cv_sample_sel)

lemma cv_sample_kernel_size: "kernel_size cv_sample s = \<lfloor>3 * s * 2\<rfloor> + 1"
proof -
  have "of_int \<lfloor>3 * s * 2\<rfloor> + (1 :: real) = of_int (\<lfloor>3 * s * 2\<rfloor> + 1)"
    by simp
  then show ?thesis
    unfolding kernel_size_def cv_sample_sel by (simp only: py_int_of_int)
qed

lemma floor_3_sqrt2: "\<lfloor>3 * sqrt 2\<rfloor> = 4"
proof -
  have "(4 / 3) \<le> sqrt 2" by (rule real_le_rsqrt) (simp add: power2_eq_square)
  moreover have "sqrt 2 < 5 / 3" by (rule real_less_lsqrt) (simp_all add: power2_eq_square)
  ultimately show ?thesis by (simp add: floor_eq_iff)
qed

lemma floor_6_sqrt2: "\<lfloor>6 * sqrt 2\<rfloor> = 8"
proof -
  have "(8 / 6) \<le> sqrt 2" by (rule real_le_rsqrt) (simp add: power2_eq_square)
  moreover have "sqrt 2 < 9 / 6" by (rule real_less_lsqrt) (simp_all add: power2_eq_square)
  ultimately show ?thesis by (simp add: floor_eq_iff)
qed

lemma default_sigmas:
  "sigma_i cv_sample 1 (sqrt 2) (-1) = sqrt 2 / 2" "sigma_i cv_sample 1 (sqrt 2) 0 = 1"
  "sigma_i cv_sample 1 (sqrt 2) 1 = sqrt 2"
proof -
  have "inverse (sqrt 2) = sqrt 2 / 2"
    by (simp add: real_div_sqrt inverse_eq_divide field_simps)
  then show "sigma_i cv_sample 1 (sqrt 2) (-1) = sqrt 2 / 2"
    by (simp add: cv_sample_sigma_i)
  show "sigma_i cv_sample 1 (sqrt 2) 0 = 1" "sigma_i cv_sample 1 (sqrt 2) 1 = sqrt 2"
    by (simp_all add: cv_sample_sigma_i)
qed

lemma default_kernel_sizes:
  "map (\<lambda>i. kernel_size cv_sample (sigma_i cv_sample 1 (sqrt 2) i)) [-1, 0, 1] = [5, 7, 9]"
  by (simp add: default_sigmas cv_sample_kernel_size floor_3_sqrt2 floor_6_sqrt2)

lemma half_kernel_size: "kernel_size cv_sample (sigma_i cv_sample (1/2) (sqrt 2) 0) = 4"
  by (simp add: cv_sample_sigma_i cv_sample_kernel_size)

lemma blur_arguments:
  assumes "createGaussianPyramid cv im sigma0 k levels = Inr gp" and "j < length levels"
    and "to_gray cv im = Inr g" and "normalize cv g = Inr im'"
  shows "\<exists>b. GaussianBlur cv im'
             (kernel_size cv (sigma_i cv sigma0 k (levels ! j)),
              kernel_size cv (sigma_i cv sigma0 k (levels ! j)))
             (sigma_i cv sigma0 k (levels ! j)) = Some b \<and>
           (\<forall>y x. at3 gp y x j = at2 b y x)"
proof -
  from createGaussianPyramid_Inr [OF assms(1)] assms(3,4) obtain bs where
    b: "blur_levels cv im' sigma0 k levels = Inr bs" and s: "stack bs = Inr gp"
    by auto
  from blur_levels_Inr [OF b] assms(2) have
    "GaussianBlur cv im'
       (kernel_size cv (sigma_i cv sigma0 k (levels ! j)),
        kernel_size cv (sigma_i cv sigma0 k (levels ! j)))
       (sigma_i cv sigma0 k (levels ! j)) = Some (bs ! j)"
    by blast
  moreover from stack_Inr [OF s] have "at3 gp y x j = at2 (bs ! j) y x" for y x
    by simp
  ultimately show ?thesis by blast
qed

section \<open>The curvature map\<close>

lemma curvature_loop_map:
  assumes "\<forall>l. curvature_level cv (slice3 D l) = Inr (f l)"
  shows "curvature_loop cv D ls = Inr (map f ls)"
  using assms by (induction ls) simp_all

lemma curvature_level_Inl:
  "curvature_level cv img = Inl e \<Longrightarrow> e = CvError \<or> e = ValueError"
  by (auto simp: curvature_level_def split: option.splits if_splits)

lemma curvature_loop_Inl:
  "curvature_loop cv D ls = Inl e \<Longrightarrow> e = CvError \<or> e = ValueError"
  by (induction ls) (auto split: sum.splits dest: curvature_level_Inl)

lemma computePrincipalCurvature_Inl:
  "computePrincipalCurvature cv D = Inl e \<Longrightarrow> e = CvError \<or> e = ValueError"
  by (auto simp: computePrincipalCurvature_def split: sum.splits dest: curvature_loop_Inl)

lemma cv_sample_curvature_level:
  "curvature_level cv_sample img = Inr (ratio cv_sample img img img)"
  by (simp add: curvature_level_def hessian_def cv_sample_sel same_shape_def)

lemma cv_sample_curvature:
  "computePrincipalCurvature cv_sample D =
     Inr \<lparr>frows3 = rows3 D, fcols3 = cols3 D, fchans3 = chans3 D,
           fat3 = (\<lambda>y x l. if l < chans3 D
                             then ratio cv_sample (slice3 D l) (slice3 D l) (slice3 D l) y x
                             else Finite 0)\<rparr>"
proof -
  have "curvature_loop cv_sample D [0..<chans3 D] =
          Inr (map (\<lambda>l. ratio cv_sample (slice3 D l) (slice3 D l) (slice3 D l)) [0..<chans3 D])"
    by (rule curvature_loop_map) (simp add: cv_sample_curvature_level)
  then show ?thesis
    by (simp add: computePrincipalCurvature_def fun_eq_iff)
qed

section \<open>The pipeline on the sample image\<close>

lemma cv_sample_blur_levels:
  "blur_levels cv_sample im sigma0 k levels = Inr bs \<Longrightarrow> bs = replicate (length levels) im"
proof (induction levels arbitrary: bs)
  case Nil
  then show ?case by simp
next
  case (Cons i levels)
  from Cons.prems obtain bs' where
    "blur_levels cv_sample im sigma0 k levels = Inr bs'" "bs = im # bs'"
    by (auto simp: cv_sample_sel split: if_splits sum.splits)
  with Cons.IH show ?case by simp
qed

lemma stack_replicate: "0 < n \<Longrightarrow> stack (replicate n a) =
    Inr \<lparr>rows3 = rows2 a, cols3 = cols2 a, chans3 = n, dtype3 = dtype2 a,
          at3 = (\<lambda>y x l. at2 (replicate n a ! l) y x)\<rparr>"
  using stack_uniform [of "replicate n a" "rows2 a" "cols2 a" "dtype2 a"]
  by (simp add: list_all_iff)

lemma sample_normalize: "normalize cv sample_im = Inr sample_im"
proof -
  have "amax sample_im = Inr 1"
    by (simp add: amax_def entries_def sample_im_def upt_rec)
  then show ?thesis by (simp add: normalize_def)
qed

lemma sample_pyramid:
  assumes "blur_levels cv_sample sample_im sigma0 k levels = Inr bs" and "levels \<noteq> []"
  shows "createGaussianPyramid cv_sample (Gray sample_im) sigma0 k levels =
           Inr (flat_pyramid (length levels))"
proof -
  from cv_sample_blur_levels [OF assms(1)] have "bs = replicate (length levels) sample_im" .
  with assms stack_replicate [of "length levels" sample_im] show ?thesis
    by (simp add: createGaussianPyramid_def to_gray_def sample_normalize flat_pyramid_def)
qed

lemma sample_blur_default3:
  "blur_levels cv_sample sample_im 1 (sqrt 2) [-1, 0, 1] = Inr [sample_im, sample_im, sample_im]"
proof -
  have "kernel_size cv_sample (sigma_i cv_sample 1 (sqrt 2) (-1)) = 5"
    "kernel_size cv_sample (sigma_i cv_sample 1 (sqrt 2) 0) = 7"
    "kernel_size cv_sample (sigma_i cv_sample 1 (sqrt 2) 1) = 9"
    using default_kernel_sizes by simp_all
  then show ?thesis by (simp add: cv_sample_sel)
qed

lemma sample_blur_sigma0:
  "blur_levels cv_sample sample_im 0 (sqrt 2) [-1, 0, 1, 2, 3, 4] =
     Inr [sample_im, sample_im, sample_im, sample_im, sample_im, sample_im]"
  by (simp add: cv_sample_sel cv_sample_sigma_i cv_sample_kernel_size)

lemma minus_one_kernel_sizes:
  "map (\<lambda>i. kernel_size cv_sample (sigma_i cv_sample 1 (- 1) i)) [0, 2, 4, 6] = [7, 7, 7, 7]"
  by (simp add: cv_sample_sigma_i cv_sample_kernel_size)

lemma getLocalExtrema_few_levels:
  "chans3 D \<le> 2 \<Longrightarrow> getLocalExtrema D lv pc th r = Inl ValueError"
  by (simp add: getLocalExtrema_def)

lemma getLocalExtrema_no_contrast:
  assumes "0 < th" and "3 \<le> chans3 D"
    and "\<And>l y x. 1 \<le> l \<Longrightarrow> l + 1 < chans3 D \<Longrightarrow> y < rows3 D \<Longrightarrow> x < cols3 D \<Longrightarrow> at3 D y x l = 0"
  shows "getLocalExtrema D lv pc th r = Inr []"
proof -
  have "level_extrema D th l = []" if "l \<in> set [1..<chans3 D - 1]" for l
  proof -
    have "set (level_extrema D th l) = {}"
    proof (rule ccontr)
      assume "set (level_extrema D th l) \<noteq> {}"
      then obtain x y l' where m: "(x, y, l') \<in> set (level_extrema D th l)"
        by (metis ex_in_conv prod_cases3)
      then have b: "1 \<le> x" "x + 1 < cols3 D" "1 \<le> y" "y + 1 < rows3 D"
        and e: "is_extrema D th l (y - 1) (x - 1)"
        by (simp_all add: level_extrema_iff)
      from is_extrema_contrast [OF e] b have "th \<le> \<bar>at3 D y x l\<bar>" by simp
      moreover from that b have "at3 D y x l = 0" by (intro assms(3)) auto
      ultimately show False using assms(1) by simp
    qed
    then show ?thesis by simp
  qed
  then have "concat (map (level_extrema D th) [1..<chans3 D - 1]) = []"
    by simp
  moreover have "[1..<chans3 D - 1] \<noteq> []" using assms(2) by simp
  ultimately show ?thesis by (simp add: getLocalExtrema_def)
qed

lemma DoG_loop_Inl: "DoG_loop cv gp js = Inl e \<Longrightarrow> e = IndexError"
  by (induction js) (auto split: if_splits sum.splits)

lemma createDoGPyramid_Inl:
  "createDoGPyramid cv gp levels = Inl e \<Longrightarrow> e = ValueError \<or> e = IndexError"
  by (auto simp: createDoGPyramid_def Let_def split: sum.splits dest: DoG_loop_Inl stack_Inl)

lemma three_levels:
  assumes "length levels = 3"
  shows "case createGaussianPyramid cv im sigma0 k levels of
           Inl e \<Rightarrow> DoGdetector cv im sigma0 k levels th_contrast th_r = Inl e \<and> e \<noteq> InvalidParameter
         | Inr gp \<Rightarrow>
             (\<exists>D lv. createDoGPyramid cv gp levels = Inr (D, lv) \<and> chans3 D = 2 \<and>
                (\<forall>pc. getLocalExtrema D lv pc th_contrast th_r = Inl ValueError) \<and>
                (case computePrincipalCurvature cv D of
                   Inl e \<Rightarrow> DoGdetector cv im sigma0 k levels th_contrast th_r = Inl e \<and>
                            e \<noteq> InvalidParameter
                 | Inr pc \<Rightarrow> DoGdetector cv im sigma0 k levels th_contrast th_r = Inl ValueError))"
proof (cases "createGaussianPyramid cv im sigma0 k levels")
  case (Inl e)
  with createGaussianPyramid_Inl [OF Inl] show ?thesis
    by (auto simp: DoGdetector_def)
next
  case (Inr gp)
  from createGaussianPyramid_chans [OF Inr] assms have c: "chans3 gp = length levels" by simp
  from createDoGPyramid_Inr [OF c, of cv] assms obtain D lv where
    d: "createDoGPyramid cv gp levels = Inr (D, lv)" and n: "chans3 D = 2"
    by auto
  from n have g: "getLocalExtrema D lv pc th_contrast th_r = Inl ValueError" for pc :: farray3
    by (simp add: getLocalExtrema_few_levels)
  have "case computePrincipalCurvature cv D of
          Inl e \<Rightarrow> DoGdetector cv im sigma0 k levels th_contrast th_r = Inl e \<and>
                   e \<noteq> InvalidParameter
        | Inr pc \<Rightarrow> DoGdetector cv im sigma0 k levels th_contrast th_r = Inl ValueError"
  proof (cases "computePrincipalCurvature cv D")
    case (Inl e)
    with computePrincipalCurvature_Inl [OF Inl] Inr d show ?thesis
      by (auto simp: DoGdetector_def)
  next
    case pc: (Inr pc)
    with Inr d g show ?thesis
      by (simp add: DoGdetector_def)
  qed
  with Inr d n show ?thesis by (simp add: getLocalExtrema_few_levels)
qed

lemma flat_pyramid_sel:
  "rows3 (flat_pyramid n) = rows2 sample_im" "cols3 (flat_pyramid n) = cols2 sample_im"
  "chans3 (flat_pyramid n) = n" "dtype3 (flat_pyramid n) = Float64"
  "l < n \<Longrightarrow> at3 (flat_pyramid n) y x l = at2 sample_im y x"
  by (simp_all add: flat_pyramid_def sample_im_def)

text \<open>The stand-in finds no keypoint in the sample image: the levels of its Gaussian
  pyramid are equal, and the DoG pyramid is zero.\<close>

lemma sample_detector:
  assumes "createGaussianPyramid cv_sample (Gray sample_im) sigma0 k levels =
             Inr (flat_pyramid (length levels))"
    and "4 \<le> length levels"
  shows "DoGdetector cv_sample (Gray sample_im) sigma0 k levels (3/100) th_r =
           Inr ([], flat_pyramid (length levels))"
proof -
  let ?n = "length levels"
  have "chans3 (flat_pyramid ?n) = ?n" "2 \<le> ?n"
    using assms(2) by (simp_all add: flat_pyramid_sel)
  from createDoGPyramid_Inr [OF this, of cv_sample] obtain D lv where
    d: "createDoGPyramid cv_sample (flat_pyramid ?n) levels = Inr (D, lv)"
    and n: "chans3 D = ?n - 1" and r: "rows3 D = rows2 sample_im" and c: "cols3 D = cols2 sample_im"
    and v: "\<And>j y x. j < ?n - 1 \<Longrightarrow> y < rows2 sample_im \<Longrightarrow> x < cols2 sample_im \<Longrightarrow>
              at3 D y x j = cast cv_sample Float64
                (at3 (flat_pyramid ?n) y x (j + 1) - at3 (flat_pyramid ?n) y x j)"
    by (auto simp: flat_pyramid_sel)
  obtain R where p: "computePrincipalCurvature cv_sample D = Inr R"
    using cv_sample_curvature by blast
  have "getLocalExtrema D lv R (3/100) th_r = Inr []"
  proof (rule getLocalExtrema_no_contrast)
    show "(0 :: real) < 3/100" by simp
    show "3 \<le> chans3 D" using n assms(2) by simp
    fix l y x
    assume "1 \<le> l" "l + 1 < chans3 D" "y < rows3 D" "x < cols3 D"
    with n r c v [of l y x] show "at3 D y x l = 0"
      by (simp add: flat_pyramid_sel cv_sample_cast)
  qed
  with assms(1) d p show ?thesis
    by (simp add: DoGdetector_def)
qed

section \<open>Kernel sizes\<close>

text \<open>
  Claim C8, as the code has it. With \<open>sigma0 = 1/2\<close> and the default \<open>k\<close>, level \<open>0\<close>
  has \<open>sigma_0 = 1/2\<close> and the width handed to the blur is
  \<open>floor(3 * (1/2) * 2) + 1 = 4\<close>, an even number: nothing rounds it to an odd one.
  Every step of this computation is exact in doubles.
\<close>

theorem kernel_size_even:
  "(0 :: real) < 1/2 \<and> 0 < sqrt 2 \<and>
   kernel_size cv_sample (sigma_i cv_sample (1/2) (sqrt 2) 0) = 4 \<and> \<not> odd (4 :: int)"
  by (simp add: half_kernel_size)

text \<open>
  Claim C8, amended: when the loop reaches level \<open>j\<close> of \<open>levels\<close>, every level before
  it blurred, the gray, normalized image is blurred with the standard deviation
  \<open>sigma = sigma0 * k^i\<close>, \<open>i\<close> the entry \<open>j\<close> of \<open>levels\<close>, and with the width and
  height \<open>width = int(floor(3 * sigma * 2) + 1)\<close>, all in the arithmetic of doubles and
  with no rounding to an odd number. If the blur rejects these arguments the call ends
  with its error; if it accepts them, its result is level \<open>j\<close> of the returned pyramid.
  Where the sum with 1 is exact, the width is odd exactly when the floor is even.
\<close>

theorem kernel_per_level:
  assumes "to_gray cv im = Inr g" and "normalize cv g = Inr im'" and "j < length levels"
    and "\<forall>i<j. \<not> (k = 0 \<and> levels ! i < 0) \<and>
           GaussianBlur cv im' (kernel_size cv (sigma_i cv sigma0 k (levels ! i)),
                                kernel_size cv (sigma_i cv sigma0 k (levels ! i)))
             (sigma_i cv sigma0 k (levels ! i)) \<noteq> None"
    and "sigma = round64 cv (sigma0 * fpow cv k (levels ! j))"
    and "n = \<lfloor>round64 cv (round64 cv (3 * sigma) * 2)\<rfloor>"
    and "width = py_int (round64 cv (of_int n + 1))"
  shows "(if k = 0 \<and> levels ! j < 0
          then createGaussianPyramid cv im sigma0 k levels = Inl ZeroDivisionError
          else case GaussianBlur cv im' (width, width) sigma of
                 None \<Rightarrow> createGaussianPyramid cv im sigma0 k levels = Inl CvError
               | Some b \<Rightarrow>
                   (case createGaussianPyramid cv im sigma0 k levels of
                      Inl e \<Rightarrow> e \<noteq> InvalidParameter
                    | Inr gp \<Rightarrow> \<forall>y x. at3 gp y x j = at2 b y x)) \<and>
         (round64 cv (of_int n + 1) = of_int n + 1 \<longrightarrow> width = n + 1 \<and> (odd width \<longleftrightarrow> even n))"
proof
  have s: "sigma_i cv sigma0 k (levels ! j) = sigma"
    by (simp add: sigma_i_def assms(5))
  have w: "kernel_size cv sigma = width"
    by (simp add: kernel_size_def assms(6,7))
  have c: "createGaussianPyramid cv im sigma0 k levels =
             (case blur_levels cv im' sigma0 k levels of Inl e \<Rightarrow> Inl e | Inr bs \<Rightarrow> stack bs)"
    by (simp add: createGaussianPyramid_def assms(1,2))
  show "if k = 0 \<and> levels ! j < 0
        then createGaussianPyramid cv im sigma0 k levels = Inl ZeroDivisionError
        else case GaussianBlur cv im' (width, width) sigma of
               None \<Rightarrow> createGaussianPyramid cv im sigma0 k levels = Inl CvError
             | Some b \<Rightarrow>
                 (case createGaussianPyramid cv im sigma0 k levels of
                    Inl e \<Rightarrow> e \<noteq> InvalidParameter
                  | Inr gp \<Rightarrow> \<forall>y x. at3 gp y x j = at2 b y x)"
  proof (cases "k = 0 \<and> levels ! j < 0")
    case True
    from blur_levels_stop(1) [OF assms(3,4) True]
    have "createGaussianPyramid cv im sigma0 k levels = Inl ZeroDivisionError"
      unfolding c by simp
    with True show ?thesis
      by auto
  next
    case False
    show ?thesis
    proof (cases "GaussianBlur cv im' (width, width) sigma")
      case None
      then have "GaussianBlur cv im' (kernel_size cv (sigma_i cv sigma0 k (levels ! j)),
                                      kernel_size cv (sigma_i cv sigma0 k (levels ! j)))
                   (sigma_i cv sigma0 k (levels ! j)) = None"
        by (simp only: s w)
      from blur_levels_stop(2) [OF assms(3,4) False this]
      have "createGaussianPyramid cv im sigma0 k levels = Inl CvError"
        unfolding c by simp
      then show ?thesis
        by (simp only: False if_False None option.case)
    next
      case (Some b)
      have "case createGaussianPyramid cv im sigma0 k levels of
              Inl e \<Rightarrow> e \<noteq> InvalidParameter
            | Inr gp \<Rightarrow> \<forall>y x. at3 gp y x j = at2 b y x"
      proof (cases "createGaussianPyramid cv im sigma0 k levels")
        case (Inl e)
        with createGaussianPyramid_Inl [OF Inl] show ?thesis by auto
      next
        case (Inr gp)
        from blur_arguments [OF Inr assms(3,1,2)] Some show ?thesis
          by (simp add: Inr s w)
      qed
      then show ?thesis
        by (simp only: False if_False Some option.case)
    qed
  qed
  show "round64 cv (of_int n + 1) = of_int n + 1 \<longrightarrow> width = n + 1 \<and> (odd width \<longleftrightarrow> even n)"
  proof
    assume "round64 cv (of_int n + 1) = of_int n + 1"
    then have "width = py_int (of_int (n + 1))"
      by (simp add: assms(7))
    then have "width = n + 1"
      by (simp only: py_int_of_int)
    then show "width = n + 1 \<and> (odd width \<longleftrightarrow> even n)"
      by simp
  qed
qed

theorem kernel_per_level_witness:
  "to_gray cv_sample (Gray sample_im) = Inr sample_im \<and>
   normalize cv_sample sample_im = Inr sample_im \<and>
   (1 :: nat) < length [1, 0 :: int] \<and>
   GaussianBlur cv_sample sample_im
     (kernel_size cv_sample (sigma_i cv_sample (1/2) 2 1),
      kernel_size cv_sample (sigma_i cv_sample (1/2) 2 1))
     (sigma_i cv_sample (1/2) 2 1) = Some sample_im \<and>
   (1/2 :: real) = round64 cv_sample (1/2 * fpow cv_sample 2 ([1, 0] ! 1)) \<and>
   (3 :: int) = \<lfloor>round64 cv_sample (round64 cv_sample (3 * (1/2)) * 2)\<rfloor> \<and>
   (4 :: int) = py_int (round64 cv_sample (of_int 3 + 1)) \<and>
   GaussianBlur cv_sample sample_im (4, 4) (1/2) = None \<and>
   createGaussianPyramid cv_sample (Gray sample_im) (1/2) 2 [1, 0] = Inl CvError \<and>
   round64 cv_sample (of_int 3 + 1) = of_int 3 + 1 \<and> \<not> odd (4 :: int) \<and> odd (3 :: int)"
proof -
  have a: "to_gray cv_sample (Gray sample_im) = Inr sample_im"
    by (simp add: to_gray_def)
  have b: "normalize cv_sample sample_im = Inr sample_im"
    by (rule sample_normalize)
  have c: "(1 :: nat) < length [1, 0 :: int]"
    by simp
  have d0: "GaussianBlur cv_sample sample_im
     (kernel_size cv_sample (sigma_i cv_sample (1/2) 2 1),
      kernel_size cv_sample (sigma_i cv_sample (1/2) 2 1))
     (sigma_i cv_sample (1/2) 2 1) = Some sample_im"
    by (simp add: cv_sample_sel cv_sample_sigma_i cv_sample_kernel_size)
  then have d: "\<forall>i<1. \<not> ((2 :: real) = 0 \<and> [1, 0 :: int] ! i < 0) \<and>
           GaussianBlur cv_sample sample_im
             (kernel_size cv_sample (sigma_i cv_sample (1/2) 2 ([1, 0] ! i)),
              kernel_size cv_sample (sigma_i cv_sample (1/2) 2 ([1, 0] ! i)))
             (sigma_i cv_sample (1/2) 2 ([1, 0] ! i)) \<noteq> None"
    by simp
  have e: "(1/2 :: real) = round64 cv_sample (1/2 * fpow cv_sample 2 ([1, 0] ! 1))"
    by (simp add: cv_sample_sel)
  have f: "(3 :: int) = \<lfloor>round64 cv_sample (round64 cv_sample (3 * (1/2)) * 2)\<rfloor>"
    by (simp add: cv_sample_sel)
  have g: "(4 :: int) = py_int (round64 cv_sample (of_int 3 + 1))"
    by (simp add: cv_sample_sel py_int_def)
  have h: "GaussianBlur cv_sample sample_im (4, 4) (1/2) = None"
    by (simp add: cv_sample_sel)
  from kernel_per_level [OF a b c d e f g] h
  have i: "createGaussianPyramid cv_sample (Gray sample_im) (1/2) 2 [1, 0] = Inl CvError"
    by simp
  have j: "round64 cv_sample (of_int 3 + 1) = of_int 3 + 1" "\<not> odd (4 :: int)" "odd (3 :: int)"
    by (simp_all add: cv_sample_sel)
  from a b c d0 e f g h i j show ?thesis
    by (intro conjI)
qed

section \<open>The curvature map of a pyramid of integers\<close>

text \<open>The pipeline keeps an 8-bit image whose maximum is at most 10 as it is (lines 20
  and 21), and its two pyramids are arrays of \<open>uint8\<close>. For a black image the DoG
  pyramid is zero.\<close>

lemma black_DoG_sel:
  "rows3 black_DoG = 3" "cols3 black_DoG = 3" "chans3 black_DoG = 1"
  "dtype3 black_DoG = UInt8" "at3 black_DoG y x l = 0"
  by (simp_all add: black_DoG_def)

lemma black_image_DoG:
  "map_sum id (\<lambda>r. (dtype3 (fst r), rows3 (fst r), cols3 (fst r), chans3 (fst r),
                     at3 (fst r) 1 1 0, snd r))
     (createDoGPyramid cv_sample
        \<lparr>rows3 = 3, cols3 = 3, chans3 = 2, dtype3 = UInt8, at3 = (\<lambda>y x l. 0)\<rparr> [0, 1])
   = Inr (UInt8, 3, 3, 1, 0, [0])"
  by (simp add: createDoGPyramid_def arith_sel slice3_sel cast_def)

text \<open>
  Claim C9: the determinant that is exactly zero is replaced by \<open>10^(-10)\<close> before
  the division, so that no division is by zero. The code does so in an array of floats
  only. On the DoG pyramid of \<open>uint8\<close> of a black image the derivatives are zero, the
  determinant is zero, the assignment of line 88 stores \<open>10**(-10)\<close> as the integer 0,
  and line 90 divides 0 by 0: the curvature map is returned with the shape of the
  pyramid and holds \<open>nan\<close>.
\<close>

theorem computePrincipalCurvature_uint8_zero:
  "at2 (det_of cv_sample (slice3 black_DoG 0) (slice3 black_DoG 0) (slice3 black_DoG 0)) 1 1 = 0 \<and>
   map_sum id (\<lambda>R. (frows3 R, fcols3 R, fchans3 R, fat3 R 1 1 0))
     (computePrincipalCurvature cv_sample black_DoG) = Inr (3, 3, 1, NaN)"
proof -
  let ?z = "slice3 black_DoG 0"
  have z: "dtype2 ?z = UInt8" "at2 ?z y x = 0" for y x
    by (simp_all add: slice3_sel black_DoG_sel)
  have d: "at2 (det_of cv_sample ?z ?z ?z) 1 1 = 0"
    by (simp add: det_of_sel arith_sel square_sel z cast_def cv_sample_sel)
  have n: "at2 (square cv_sample (arith cv_sample (+) ?z ?z)) 1 1 = 0"
    by (simp add: arith_sel square_sel z cast_def)
  have "ratio cv_sample ?z ?z ?z 1 1 = NaN"
    unfolding ratio_def Let_def d n by (simp add: true_divide_def)
  then have "map_sum id (\<lambda>R. (frows3 R, fcols3 R, fchans3 R, fat3 R 1 1 0))
     (computePrincipalCurvature cv_sample black_DoG) = Inr (3, 3, 1, NaN)"
    by (simp add: cv_sample_curvature black_DoG_sel)
  with d show ?thesis
    by (rule conjI)
qed

text \<open>On a pyramid of floats the same pixel has the value the claim gives it: the zero
  determinant is replaced, and the ratio is \<open>0 / 10^(-10) = 0\<close>.\<close>

lemma computePrincipalCurvature_float_zero:
  "map_sum id (\<lambda>R. fat3 R 1 1 0)
     (computePrincipalCurvature cv_sample (black_DoG\<lparr>dtype3 := Float64\<rparr>)) = Inr (Finite 0)"
proof -
  let ?z = "slice3 (black_DoG\<lparr>dtype3 := Float64\<rparr>) 0"
  have z: "dtype2 ?z = Float64" "at2 ?z y x = 0" for y x
    by (simp_all add: slice3_sel black_DoG_def)
  have d: "at2 (det_of cv_sample ?z ?z ?z) 1 1 = 1 / 10 ^ 10"
    by (simp add: det_of_sel arith_sel square_sel z cast_def cv_sample_sel power_int_minus
          inverse_eq_divide)
  have n: "at2 (square cv_sample (arith cv_sample (+) ?z ?z)) 1 1 = 0"
    by (simp add: arith_sel square_sel z cast_def cv_sample_sel)
  have "ratio cv_sample ?z ?z ?z 1 1 = Finite 0"
    unfolding ratio_def Let_def d n by (simp add: true_divide_def cast_def cv_sample_sel
      det_of_sel arith_sel square_sel z)
  then show ?thesis
    by (simp add: cv_sample_curvature black_DoG_def)
qed

section \<open>Parameters the pipeline does not check\<close>

text \<open>
  Claim C4, as the code has it. With the defaults and \<open>levels = [-1, 0, 1]\<close> the pipeline
  builds both pyramids and the curvature map, and fails inside \<open>getLocalExtrema\<close>:
  the loop over \<open>range(1, 1)\<close> appends nothing and \<^verbatim>\<open>np.concatenate\<close> raises a
  \<open>ValueError\<close>, not the \<open>InvalidParameter\<close> of the claim.
\<close>

theorem three_levels_not_InvalidParameter:
  "DoGdetector cv_sample (Gray sample_im) 1 (sqrt 2) [-1, 0, 1] (3/100) 12 = Inl ValueError"
proof -
  have g: "createGaussianPyramid cv_sample (Gray sample_im) 1 (sqrt 2) [-1, 0, 1] =
          Inr (flat_pyramid (length [-1, 0, 1 :: int]))"
    by (rule sample_pyramid [OF sample_blur_default3]) simp
  from three_levels [of "[-1, 0, 1]" cv_sample "Gray sample_im" 1 "sqrt 2" "3/100" 12]
  obtain D where d: "case computePrincipalCurvature cv_sample D of
                   Inl e \<Rightarrow> DoGdetector cv_sample (Gray sample_im) 1 (sqrt 2) [-1, 0, 1] (3/100) 12 = Inl e \<and>
                            e \<noteq> InvalidParameter
                 | Inr pc \<Rightarrow> DoGdetector cv_sample (Gray sample_im) 1 (sqrt 2) [-1, 0, 1] (3/100) 12 = Inl ValueError"
    unfolding g by auto
  obtain R where "computePrincipalCurvature cv_sample D = Inr R"
    using cv_sample_curvature by blast
  with d show ?thesis by simp
qed

text \<open>
  Claim C4, amended: when the pipeline is invoked with a \<open>levels\<close> sequence of exactly
  3 entries it returns no result and raises no \<open>InvalidParameter\<close>. Either the Gaussian
  pyramid or the curvature map raises, and the call ends with that error; or the DoG
  pyramid has 2 levels, none of them interior, and the call fails inside the detector
  with the \<open>ValueError\<close> of \<^verbatim>\<open>np.concatenate\<close> on an empty list.
\<close>

theorem three_levels_ValueError:
  assumes "length levels = 3"
  shows "case createGaussianPyramid cv im sigma0 k levels of
           Inl e \<Rightarrow> DoGdetector cv im sigma0 k levels th_contrast th_r = Inl e \<and> e \<noteq> InvalidParameter
         | Inr gp \<Rightarrow>
             (\<exists>D lv. createDoGPyramid cv gp levels = Inr (D, lv) \<and> chans3 D = 2 \<and>
                (\<forall>pc. getLocalExtrema D lv pc th_contrast th_r = Inl ValueError) \<and>
                (case computePrincipalCurvature cv D of
                   Inl e \<Rightarrow> DoGdetector cv im sigma0 k levels th_contrast th_r = Inl e \<and>
                            e \<noteq> InvalidParameter
                 | Inr pc \<Rightarrow> DoGdetector cv im sigma0 k levels th_contrast th_r = Inl ValueError))"
  using assms by (rule three_levels)

theorem three_levels_ValueError_witness:
  "length [2, 3, 4 :: int] = 3 \<and>
   (case createGaussianPyramid cv_sample (Gray sample_im) 1 2 [2, 3, 4] of
           Inl e \<Rightarrow> DoGdetector cv_sample (Gray sample_im) 1 2 [2, 3, 4] (3/100) 12 = Inl e \<and> e \<noteq> InvalidParameter
         | Inr gp \<Rightarrow>
             (\<exists>D lv. createDoGPyramid cv_sample gp [2, 3, 4] = Inr (D, lv) \<and> chans3 D = 2 \<and>
                (\<forall>pc. getLocalExtrema D lv pc (3/100) 12 = Inl ValueError) \<and>
                (case computePrincipalCurvature cv_sample D of
                   Inl e \<Rightarrow> DoGdetector cv_sample (Gray sample_im) 1 2 [2, 3, 4] (3/100) 12 = Inl e \<and>
                            e \<noteq> InvalidParameter
                 | Inr pc \<Rightarrow> DoGdetector cv_sample (Gray sample_im) 1 2 [2, 3, 4] (3/100) 12 = Inl ValueError)))"
proof -
  have a: "length [2, 3, 4 :: int] = 3" by simp
  have "case createGaussianPyramid cv_sample (Gray sample_im) 1 2 [2, 3, 4] of
           Inl e \<Rightarrow> DoGdetector cv_sample (Gray sample_im) 1 2 [2, 3, 4] (3/100) 12 = Inl e \<and> e \<noteq> InvalidParameter
         | Inr gp \<Rightarrow>
             (\<exists>D lv. createDoGPyramid cv_sample gp [2, 3, 4] = Inr (D, lv) \<and> chans3 D = 2 \<and>
                (\<forall>pc. getLocalExtrema D lv pc (3/100) 12 = Inl ValueError) \<and>
                (case computePrincipalCurvature cv_sample D of
                   Inl e \<Rightarrow> DoGdetector cv_sample (Gray sample_im) 1 2 [2, 3, 4] (3/100) 12 = Inl e \<and>
                            e \<noteq> InvalidParameter
                 | Inr pc \<Rightarrow> DoGdetector cv_sample (Gray sample_im) 1 2 [2, 3, 4] (3/100) 12 = Inl ValueError))"
    by (rule three_levels_ValueError [OF a])
  with a show ?thesis by (rule conjI)
qed

text \<open>
  Claim C5, as the code has it. With \<open>sigma0 = 0\<close> and the other defaults every level
  is blurred with standard deviation 0 and a 1 by 1 kernel, and the pipeline returns a
  result, here with no keypoint: the call is not rejected.
\<close>

theorem sigma0_zero_accepted:
  "map_sum id fst (DoGdetector cv_sample (Gray sample_im) 0 (sqrt 2) [-1, 0, 1, 2, 3, 4] (3/100) 12)
     = Inr []"
proof -
  let ?levels = "[-1, 0, 1, 2, 3, 4 :: int]"
  have g: "createGaussianPyramid cv_sample (Gray sample_im) 0 (sqrt 2) ?levels =
          Inr (flat_pyramid (length ?levels))"
    by (rule sample_pyramid [OF sample_blur_sigma0]) simp
  have "DoGdetector cv_sample (Gray sample_im) 0 (sqrt 2) ?levels (3/100) 12 =
          Inr ([], flat_pyramid (length ?levels))"
    by (rule sample_detector [OF g]) simp
  then show ?thesis
    by simp
qed

text \<open>
  Claim C5, amended: for every input image, \<open>sigma0 \<le> 0\<close> or \<open>k \<le> 0\<close> does not make
  the pipeline reject the call: no parameter is validated, at the entry or later, and no
  call ends with \<open>InvalidParameter\<close>. \<open>createGaussianPyramid\<close> returns a pyramid
  exactly when the conversion to gray and the normalization return, no level asks for a
  negative power of \<open>k = 0\<close>, the blur accepts the standard deviation and the width of
  every level, and the blurred levels can be stacked; \<open>DoGdetector\<close> returns exactly
  when, after that, the DoG pyramid, the curvature map and the detector return.
\<close>

theorem parameters_not_validated:
  "(createGaussianPyramid cv im sigma0 k levels = Inr gp \<longleftrightarrow>
      (\<exists>g im' bs. to_gray cv im = Inr g \<and> normalize cv g = Inr im' \<and>
         length bs = length levels \<and>
         (\<forall>j<length levels. \<not> (k = 0 \<and> levels ! j < 0) \<and>
            GaussianBlur cv im' (kernel_size cv (sigma_i cv sigma0 k (levels ! j)),
                                 kernel_size cv (sigma_i cv sigma0 k (levels ! j)))
              (sigma_i cv sigma0 k (levels ! j)) = Some (bs ! j)) \<and>
         stack bs = Inr gp)) \<and>
   (DoGdetector cv im sigma0 k levels th_contrast th_r = Inr (ks, gp) \<longleftrightarrow>
      createGaussianPyramid cv im sigma0 k levels = Inr gp \<and>
      (\<exists>D lv pc. createDoGPyramid cv gp levels = Inr (D, lv) \<and>
         computePrincipalCurvature cv D = Inr pc \<and>
         getLocalExtrema D lv pc th_contrast th_r = Inr ks)) \<and>
   createGaussianPyramid cv im sigma0 k levels \<noteq> Inl InvalidParameter \<and>
   DoGdetector cv im sigma0 k levels th_contrast th_r \<noteq> Inl InvalidParameter"
proof (intro conjI)
  show "createGaussianPyramid cv im sigma0 k levels = Inr gp \<longleftrightarrow>
      (\<exists>g im' bs. to_gray cv im = Inr g \<and> normalize cv g = Inr im' \<and>
         length bs = length levels \<and>
         (\<forall>j<length levels. \<not> (k = 0 \<and> levels ! j < 0) \<and>
            GaussianBlur cv im' (kernel_size cv (sigma_i cv sigma0 k (levels ! j)),
                                 kernel_size cv (sigma_i cv sigma0 k (levels ! j)))
              (sigma_i cv sigma0 k (levels ! j)) = Some (bs ! j)) \<and>
         stack bs = Inr gp)"
    by (rule createGaussianPyramid_iff)
  show "DoGdetector cv im sigma0 k levels th_contrast th_r = Inr (ks, gp) \<longleftrightarrow>
      createGaussianPyramid cv im sigma0 k levels = Inr gp \<and>
      (\<exists>D lv pc. createDoGPyramid cv gp levels = Inr (D, lv) \<and>
         computePrincipalCurvature cv D = Inr pc \<and>
         getLocalExtrema D lv pc th_contrast th_r = Inr ks)"
    unfolding DoGdetector_def by (auto split: sum.splits prod.splits)
  show g: "createGaussianPyramid cv im sigma0 k levels \<noteq> Inl InvalidParameter"
    using createGaussianPyramid_Inl [of cv im sigma0 k levels InvalidParameter] by auto
  show "DoGdetector cv im sigma0 k levels th_contrast th_r \<noteq> Inl InvalidParameter"
  proof
    assume a: "DoGdetector cv im sigma0 k levels th_contrast th_r = Inl InvalidParameter"
    then obtain gp where gp: "createGaussianPyramid cv im sigma0 k levels = Inr gp"
      using g by (cases "createGaussianPyramid cv im sigma0 k levels") (auto simp: DoGdetector_def)
    show False
    proof (cases "createDoGPyramid cv gp levels")
      case (Inl e)
      with createDoGPyramid_Inl [OF Inl] a gp show False
        by (auto simp: DoGdetector_def)
    next
      case (Inr dl)
      obtain D lv where dl: "dl = (D, lv)" by (cases dl)
      show False
      proof (cases "computePrincipalCurvature cv D")
        case (Inl e)
        with computePrincipalCurvature_Inl [OF Inl] a gp Inr dl show False
          by (auto simp: DoGdetector_def)
      next
        case pc: (Inr pc)
        with a gp Inr dl show False
          by (auto simp: DoGdetector_def getLocalExtrema_def split: if_splits)
      qed
    qed
  qed
qed

theorem parameters_not_validated_witness:
  "(- 1 :: real) \<le> 0 \<and>
   to_gray cv_sample (Gray sample_im) = Inr sample_im \<and>
   normalize cv_sample sample_im = Inr sample_im \<and>
   map (\<lambda>i. kernel_size cv_sample (sigma_i cv_sample 1 (- 1) i)) [0, 2, 4, 6] = [7, 7, 7, 7] \<and>
   map (\<lambda>i. sigma_i cv_sample 1 (- 1) i) [0, 2, 4, 6] = [1, 1, 1, 1] \<and>
   GaussianBlur cv_sample sample_im (7, 7) 1 = Some sample_im \<and>
   stack [sample_im, sample_im, sample_im, sample_im] = Inr (flat_pyramid 4) \<and>
   createGaussianPyramid cv_sample (Gray sample_im) 1 (- 1) [0, 2, 4, 6] = Inr (flat_pyramid 4) \<and>
   DoGdetector cv_sample (Gray sample_im) 1 (- 1) [0, 2, 4, 6] (3/100) 12 = Inr ([], flat_pyramid 4)"
proof -
  let ?bs = "[sample_im, sample_im, sample_im, sample_im]"
  note t = parameters_not_validated [of cv_sample "Gray sample_im" 1 "- 1" "[0, 2, 4, 6]"
      "flat_pyramid 4" "3/100" 12 "[]"]
  have a: "(- 1 :: real) \<le> 0"
    by simp
  have b: "to_gray cv_sample (Gray sample_im) = Inr sample_im"
    by (simp add: to_gray_def)
  have c: "normalize cv_sample sample_im = Inr sample_im"
    by (rule sample_normalize)
  have d: "map (\<lambda>i. kernel_size cv_sample (sigma_i cv_sample 1 (- 1) i)) [0, 2, 4, 6] = [7, 7, 7, 7]"
    by (rule minus_one_kernel_sizes)
  have e: "map (\<lambda>i. sigma_i cv_sample 1 (- 1) i) [0, 2, 4, 6] = [1, 1, 1, 1]"
    by (simp add: cv_sample_sigma_i)
  have f: "GaussianBlur cv_sample sample_im (7, 7) 1 = Some sample_im"
    by (simp add: cv_sample_sel)
  have s: "stack ?bs = Inr (flat_pyramid 4)"
    using stack_replicate [of 4 sample_im]
    by (simp add: flat_pyramid_def numeral_eq_Suc)
  have "\<forall>j<length [0, 2, 4, 6 :: int]. \<not> ((- 1 :: real) = 0 \<and> [0, 2, 4, 6 :: int] ! j < 0) \<and>
          GaussianBlur cv_sample sample_im
            (kernel_size cv_sample (sigma_i cv_sample 1 (- 1) ([0, 2, 4, 6] ! j)),
             kernel_size cv_sample (sigma_i cv_sample 1 (- 1) ([0, 2, 4, 6] ! j)))
            (sigma_i cv_sample 1 (- 1) ([0, 2, 4, 6] ! j)) = Some (?bs ! j)"
    using d e f by (simp add: All_less_Suc2 numeral_eq_Suc)
  with b c s have "\<exists>g im' bs. to_gray cv_sample (Gray sample_im) = Inr g \<and>
         normalize cv_sample g = Inr im' \<and> length bs = length [0, 2, 4, 6 :: int] \<and>
         (\<forall>j<length [0, 2, 4, 6 :: int]. \<not> ((- 1 :: real) = 0 \<and> [0, 2, 4, 6 :: int] ! j < 0) \<and>
            GaussianBlur cv_sample im'
              (kernel_size cv_sample (sigma_i cv_sample 1 (- 1) ([0, 2, 4, 6] ! j)),
               kernel_size cv_sample (sigma_i cv_sample 1 (- 1) ([0, 2, 4, 6] ! j)))
              (sigma_i cv_sample 1 (- 1) ([0, 2, 4, 6] ! j)) = Some (bs ! j)) \<and>
         stack bs = Inr (flat_pyramid 4)"
    by (intro exI [where x = sample_im] exI [where x = ?bs]) simp
  with t have g: "createGaussianPyramid cv_sample (Gray sample_im) 1 (- 1) [0, 2, 4, 6] =
                    Inr (flat_pyramid 4)"
    by blast
  have l: "length [0, 2, 4, 6 :: int] = 4"
    by simp
  have h: "DoGdetector cv_sample (Gray sample_im) 1 (- 1) [0, 2, 4, 6] (3/100) 12 =
             Inr ([], flat_pyramid 4)"
    using sample_detector [of 1 "- 1" "[0, 2, 4, 6]" 12] g unfolding l by simp
  from a b c d e f s g h show ?thesis
    by (intro conjI)
qed

end
